theory Spec2Isabelle
  imports Main "HOL-Library.Sublist" "HOL-Library.Char_ord" "HOL-Library.List_Lexorder"
    "HOL-Library.AList"
begin

section \<open>Python strings\<close>

text \<open>
  A Python \<open>str\<close> is a \<^typ>\<open>string\<close>. One \<^typ>\<open>char\<close> stands for one code point below
  256, so \<open>len\<close> is \<^const>\<open>length\<close> and the order of \<open>sorted\<close> on strings is the
  lexicographic order of the code points (\<open>Char_ord\<close>, \<open>List_Lexorder\<close>).
\<close>

abbreviation LF :: char where
  "LF \<equiv> CHR 0x0A"

abbreviation SQ :: char where
  "SQ \<equiv> CHR 0x27"

abbreviation DQ :: char where
  "DQ \<equiv> CHR 0x22"

abbreviation CR :: char where
  "CR \<equiv> CHR 0x0D"

text \<open>
  The white space of \<open>str.strip()\<close> and of \<open>\s\<close> in a \<open>str\<close> pattern: both ask
  \<open>Py_UNICODE_ISSPACE\<close>, which below 256 holds of 0x09-0x0D, 0x1C-0x20, 0x85 and 0xA0.
\<close>

definition isspace :: "char \<Rightarrow> bool" where
  "isspace c =
     (let n = (of_char c :: nat)
      in (9 \<le> n \<and> n \<le> 13) \<or> (28 \<le> n \<and> n \<le> 32) \<or> n = 133 \<or> n = 160)"

definition strip :: "string \<Rightarrow> string" where
  "strip s = rev (dropWhile isspace (rev (dropWhile isspace s)))"

definition startswith :: "string \<Rightarrow> string \<Rightarrow> bool" where
  "startswith s p = prefix p s"

definition endswith :: "string \<Rightarrow> string \<Rightarrow> bool" where
  "endswith s p = suffix p s"

text \<open>\<open>sub in s\<close> on strings: \<open>sub\<close> occurs in \<open>s\<close> as a contiguous run.\<close>

definition contains :: "string \<Rightarrow> string \<Rightarrow> bool" where
  "contains s sub = sublist sub s"

text \<open>
  \<open>s.split(sep)\<close> for a separator of one character. A character other than the separator
  joins the first piece of what follows; the result is never empty (\<open>split_on_not_Nil\<close>
  below), so the second case of the inner \<open>case\<close> never arises.
\<close>

fun split_on :: "char \<Rightarrow> string \<Rightarrow> string list" where
  "split_on sep [] = [[]]"
| "split_on sep (c # cs) =
     (if c = sep then [] # split_on sep cs
      else (case split_on sep cs of w # ws \<Rightarrow> (c # w) # ws | [] \<Rightarrow> [[c]]))"

fun join :: "string \<Rightarrow> string list \<Rightarrow> string" where
  "join sep [] = []"
| "join sep [x] = x"
| "join sep (x # y # ys) = x @ sep @ join sep (y # ys)"

text \<open>The decimal text of a number, as an f-string writes \<open>{len(...)}\<close>.\<close>

definition digit_char :: "nat \<Rightarrow> char" where
  "digit_char d = ''0123456789'' ! d"

function str_nat :: "nat \<Rightarrow> string" where
  "str_nat n = (if n < 10 then [digit_char n] else str_nat (n div 10) @ [digit_char (n mod 10)])"
  by pat_completeness auto
termination
  by (relation "measure (\<lambda>n. n)") auto

declare str_nat.simps [simp del]

text \<open>\<open>d.get(k, default)\<close> on a dictionary kept as an association list.\<close>

definition dict_get :: "(string \<times> string) list \<Rightarrow> string \<Rightarrow> string \<Rightarrow> string" where
  "dict_get d k dflt = (case map_of d k of None \<Rightarrow> dflt | Some v \<Rightarrow> v)"


section \<open>quick\_validate.py\<close>

definition ALLOWED_PROPERTIES :: "string list" where
  "ALLOWED_PROPERTIES = [''name'', ''description'', ''license'', ''allowed-tools'', ''metadata'']"

subsection \<open>The three patterns\<close>

text \<open>The class \<open>[a-zA-Z_-]\<close>.\<close>

definition key_char :: "char \<Rightarrow> bool" where
  "key_char c =
     ((CHR ''a'' \<le> c \<and> c \<le> CHR ''z'') \<or> (CHR ''A'' \<le> c \<and> c \<le> CHR ''Z'')
      \<or> c = CHR ''_'' \<or> c = CHR ''-'')"

text \<open>
  \<open>re.match(r"^([a-zA-Z_-]+):\s*(.*)$", line)\<close>, giving groups 1 and 2. The key is the
  longest run of key characters, which a colon must follow (a colon is no key character, so
  a shorter key never helps). \<open>\s*\<close> takes the white space after the colon; \<open>.\<close> matches
  anything but a line feed and \<open>$\<close> matches at the end or before a line feed that ends the
  text, so the rest may hold a line feed only as its last character, which group 2 leaves
  out. Giving white space back to group 2 never helps: it keeps every line feed of the rest.
\<close>

definition match_key_value :: "string \<Rightarrow> (string \<times> string) option" where
  "match_key_value line =
     (let key = takeWhile key_char line; rest = dropWhile key_char line
      in if key = [] then None
         else case rest of
           [] \<Rightarrow> None
         | c # r \<Rightarrow>
             if c \<noteq> CHR '':'' then None
             else let u = dropWhile isspace r;
                      v = takeWhile (\<lambda>c. c \<noteq> LF) u;
                      w = dropWhile (\<lambda>c. c \<noteq> LF) u
                  in if w = [] \<or> w = [LF] then Some (key, v) else None)"

text \<open>The class \<open>[a-z0-9-]\<close>.\<close>

definition name_char :: "char \<Rightarrow> bool" where
  "name_char c =
     ((CHR ''a'' \<le> c \<and> c \<le> CHR ''z'') \<or> (CHR ''0'' \<le> c \<and> c \<le> CHR ''9'') \<or> c = CHR ''-'')"

text \<open>\<open>re.match(r"^[a-z0-9-]+$", name)\<close> as a truth value.\<close>

definition match_hyphen_case :: "string \<Rightarrow> bool" where
  "match_hyphen_case name =
     (let rest = dropWhile name_char name
      in takeWhile name_char name \<noteq> [] \<and> (rest = [] \<or> rest = [LF]))"

text \<open>
  The lazy scan of \<open>(.*?)\n---\<close> under \<open>re.DOTALL\<close>: the shortest text after which a
  line feed and three hyphens follow.
\<close>

fun lazy_until_marker :: "string \<Rightarrow> string option" where
  "lazy_until_marker [] = None"
| "lazy_until_marker (c # cs) =
     (if prefix (LF # ''---'') (c # cs) then Some []
      else map_option ((#) c) (lazy_until_marker cs))"

text \<open>\<open>re.match(r"^---\n(.*?)\n---", content, re.DOTALL)\<close>, giving group 1.\<close>

definition match_frontmatter :: "string \<Rightarrow> string option" where
  "match_frontmatter content =
     (if prefix (''---'' @ [LF]) content then lazy_until_marker (drop 4 content) else None)"

subsection \<open>parse\_simple\_yaml\<close>

text \<open>
  The body of the loop for one line: \<open>None\<close> where the body stores nothing (a blank line, a
  comment, a line the pattern does not match), otherwise the key and the value it stores.
\<close>

definition line_entry :: "string \<Rightarrow> (string \<times> string) option" where
  "line_entry raw =
     (let line = strip raw
      in if line = [] \<or> startswith line ''#'' then None
         else case match_key_value line of
           None \<Rightarrow> None
         | Some (key, g2) \<Rightarrow>
             let val = strip g2
             in if (startswith val [DQ] \<and> endswith val [DQ])
                   \<or> (startswith val [SQ] \<and> endswith val [SQ])
                then Some (key, butlast (tl val))
                else Some (key, val))"

text \<open>
  \<open>result[key] = value\<close>: \<^const>\<open>AList.update\<close> replaces the value of a key that is there
  and appends a new key, as a Python dictionary does.
\<close>

definition parse_step :: "(string \<times> string) list \<Rightarrow> string \<Rightarrow> (string \<times> string) list" where
  "parse_step result raw =
     (case line_entry raw of None \<Rightarrow> result | Some (key, val) \<Rightarrow> AList.update key val result)"

definition parse_simple_yaml :: "string \<Rightarrow> (string \<times> string) list" where
  "parse_simple_yaml text = foldl parse_step [] (split_on LF (strip text))"

subsection \<open>validate\_skill, from the text of SKILL.md on\<close>

text \<open>The checks under \<open>if name:\<close>; \<open>Some\<close> is the message of the check that returns.\<close>

definition name_checks :: "string \<Rightarrow> string \<Rightarrow> string option" where
  "name_checks dir_name name =
     (if \<not> match_hyphen_case name then
        Some (''Name '' @ [SQ] @ name @ [SQ]
              @ '' should be hyphen-case (lowercase letters, digits, and hyphens only)'')
      else if startswith name ''-'' \<or> endswith name ''-'' \<or> contains name ''--'' then
        Some (''Name '' @ [SQ] @ name @ [SQ]
              @ '' cannot start/end with hyphen or contain consecutive hyphens'')
      else if length name > 64 then
        Some (''Name is too long ('' @ str_nat (length name)
              @ '' chars). Maximum is 64 characters.'')
      else if name \<noteq> dir_name then
        Some (''Name '' @ [SQ] @ name @ [SQ] @ '' does not match directory name ''
              @ [SQ] @ dir_name @ [SQ])
      else None)"

text \<open>The checks under \<open>if description:\<close>.\<close>

definition description_checks :: "string \<Rightarrow> string option" where
  "description_checks description =
     (if contains description ''<'' \<or> contains description ''>'' then
        Some ''Description cannot contain angle brackets (< or >)''
      else if length description > 1024 then
        Some (''Description is too long ('' @ str_nat (length description)
              @ '' chars). Maximum is 1024 characters.'')
      else None)"

text \<open>
  Lines 57 to 139 of \<open>validate_skill\<close>: \<open>dir_name\<close> is \<open>skill_path.name\<close> and \<open>content\<close> the
  text read from SKILL.md. The parser returns a dictionary of strings and raises nothing, so
  the branches for another type of \<open>frontmatter\<close>, \<open>name\<close> or \<open>description\<close> and the
  \<open>except\<close> clause are never taken; the model has no value for them to test.
\<close>

definition validate_content :: "string \<Rightarrow> string \<Rightarrow> bool \<times> string" where
  "validate_content dir_name content =
     (if \<not> startswith content ''---'' then (False, ''No YAML frontmatter found'')
      else case match_frontmatter content of
        None \<Rightarrow> (False, ''Invalid frontmatter format'')
      | Some frontmatter_text \<Rightarrow>
          let frontmatter = parse_simple_yaml frontmatter_text;
              unexpected_keys = filter (\<lambda>k. k \<notin> set ALLOWED_PROPERTIES) (map fst frontmatter)
          in if unexpected_keys \<noteq> [] then
               (False, ''Unexpected key(s) in frontmatter: '' @ join '', '' (sort unexpected_keys)
                       @ ''. Allowed: '' @ join '', '' (sort ALLOWED_PROPERTIES))
             else if map_of frontmatter ''name'' = None then
               (False, ''Missing '' @ [SQ] @ ''name'' @ [SQ] @ '' in frontmatter'')
             else if map_of frontmatter ''description'' = None then
               (False, ''Missing '' @ [SQ] @ ''description'' @ [SQ] @ '' in frontmatter'')
             else
               let name = strip (dict_get frontmatter ''name'' [])
               in (case (if name \<noteq> [] then name_checks dir_name name else None) of
                 Some msg \<Rightarrow> (False, msg)
               | None \<Rightarrow>
                   (let description = strip (dict_get frontmatter ''description'' [])
                    in (case (if description \<noteq> [] then description_checks description
                              else None) of
                      Some msg \<Rightarrow> (False, msg)
                    | None \<Rightarrow>
                        (let lines = split_on LF content
                         in if length lines > 500 then
                              (False, ''SKILL.md has '' @ str_nat (length lines)
                                      @ '' lines. Maximum recommended is 500.'')
                            else (True, ''Skill is valid!''))))))"


section \<open>Paths and the file system\<close>

text \<open>
  A \<open>Path\<close> that \<open>resolve()\<close> returned is the list of its components below the root; the
  empty list is the root. The file system is a table from such paths to nodes, each with its
  permission bits. A path is reached through its parents: an entry whose parent is missing
  or a file is out of reach, as below a real file system's missing directory.

  The table is a POSIX file system seen through its names and nothing more. It has no symbolic
  links, and a component \<open>..\<close> is an entry name like any other, where the operating system
  would step to the parent: the operations follow the source for the paths without such a
  component. The only failures are those the tree decides, the four of \<open>os_error\<close>: a
  permission that is denied, a name that is too long or holds a NUL character and a disk
  that is full are outside the table.
\<close>

type_synonym path = "string list"

datatype node = Dir nat | File nat string

type_synonym filesystem = "path \<Rightarrow> node option"

datatype os_error = FileNotFoundError | NotADirectoryError | FileExistsError | IsADirectoryError

text \<open>
  Walking down the components \<open>cs\<close> below the directory \<open>pre\<close>: the error of the first
  component that is missing or is a file.
\<close>

fun lookup_dirs :: "filesystem \<Rightarrow> path \<Rightarrow> path \<Rightarrow> os_error option" where
  "lookup_dirs fs pre [] = None"
| "lookup_dirs fs pre (c # cs) =
     (case fs (pre @ [c]) of
        None \<Rightarrow> Some FileNotFoundError
      | Some (File m s) \<Rightarrow> Some NotADirectoryError
      | Some (Dir m) \<Rightarrow> lookup_dirs fs (pre @ [c]) cs)"

definition parent_error :: "filesystem \<Rightarrow> path \<Rightarrow> os_error option" where
  "parent_error fs p = lookup_dirs fs [] (butlast p)"

text \<open>\<open>Path.exists()\<close> and \<open>Path.is_dir()\<close>: false where the path cannot be reached.\<close>

definition path_exists :: "filesystem \<Rightarrow> path \<Rightarrow> bool" where
  "path_exists fs p = (p = [] \<or> (parent_error fs p = None \<and> fs p \<noteq> None))"

definition is_dir :: "filesystem \<Rightarrow> path \<Rightarrow> bool" where
  "is_dir fs p =
     (p = [] \<or> (parent_error fs p = None \<and> (case fs p of Some (Dir m) \<Rightarrow> True | _ \<Rightarrow> False)))"

text \<open>
  \<open>os.mkdir\<close>. A new directory has the bits 0o755 (493), a new file 0o644 (420). A new
  directory is empty: what the table holds below it, out of reach until now, is dropped.
\<close>

definition os_mkdir :: "filesystem \<Rightarrow> path \<Rightarrow> os_error + filesystem" where
  "os_mkdir fs p =
     (case parent_error fs p of
        Some e \<Rightarrow> Inl e
      | None \<Rightarrow>
          if p = [] \<or> fs p \<noteq> None then Inl FileExistsError
          else Inr (\<lambda>q. if strict_prefix p q then None else (fs(p \<mapsto> Dir 493)) q))"

text \<open>
  \<open>Path.mkdir(parents, exist_ok)\<close> as pathlib writes it: \<open>os.mkdir\<close> first; on
  \<open>FileNotFoundError\<close> with \<open>parents\<close> the parent is made (with \<open>exist_ok=True\<close>) and the
  directory after it; any other error is raised again unless \<open>exist_ok\<close> holds and the path
  is a directory.
\<close>

function mkdir :: "filesystem \<Rightarrow> path \<Rightarrow> bool \<Rightarrow> bool \<Rightarrow> os_error + filesystem" where
  "mkdir fs p parents exist_ok =
     (case os_mkdir fs p of
        Inr fs' \<Rightarrow> Inr fs'
      | Inl e \<Rightarrow>
          if e = FileNotFoundError then
            (if \<not> parents \<or> p = [] then Inl e
             else (case mkdir fs (butlast p) True True of
                     Inl e' \<Rightarrow> Inl e'
                   | Inr fs' \<Rightarrow> mkdir fs' p False exist_ok))
          else if \<not> exist_ok \<or> \<not> is_dir fs p then Inl e
          else Inr fs)"
  by pat_completeness auto
termination
  by (relation "measure (\<lambda>(fs, p, parents, exist_ok). 2 * length p + (if parents then 1 else 0))")
    auto

declare mkdir.simps [simp del]

text \<open>\<open>Path.write_text\<close>: a file that is there keeps its bits and gets the new text.\<close>

definition write_text :: "filesystem \<Rightarrow> path \<Rightarrow> string \<Rightarrow> os_error + filesystem" where
  "write_text fs p s =
     (case parent_error fs p of
        Some e \<Rightarrow> Inl e
      | None \<Rightarrow>
          if p = [] then Inl IsADirectoryError
          else (case fs p of
                  None \<Rightarrow> Inr (fs(p \<mapsto> File 420 s))
                | Some (Dir m) \<Rightarrow> Inl IsADirectoryError
                | Some (File m old) \<Rightarrow> Inr (fs(p \<mapsto> File m s))))"

text \<open>
  \<open>Path.read_text\<close> opens the file in text mode with universal newlines: a carriage return,
  together with the line feed after it when there is one, is read as one line feed.
  (\<open>write_text\<close> on a POSIX system writes the characters as they are.) The table stores the
  text of a file, not its bytes, so reading has no bytes that fail to decode.
\<close>

fun universal_newlines :: "string \<Rightarrow> string" where
  "universal_newlines [] = []"
| "universal_newlines [c] = [if c = CR then LF else c]"
| "universal_newlines (c # d # cs) =
     (if c = CR \<and> d = LF then LF # universal_newlines cs
      else if c = CR then LF # universal_newlines (d # cs)
      else c # universal_newlines (d # cs))"

definition read_text :: "filesystem \<Rightarrow> path \<Rightarrow> os_error + string" where
  "read_text fs p =
     (case parent_error fs p of
        Some e \<Rightarrow> Inl e
      | None \<Rightarrow>
          if p = [] then Inl IsADirectoryError
          else (case fs p of
                  None \<Rightarrow> Inl FileNotFoundError
                | Some (Dir m) \<Rightarrow> Inl IsADirectoryError
                | Some (File m s) \<Rightarrow> Inr (universal_newlines s)))"

text \<open>\<open>Path.chmod\<close>; the root's bits are not in the table.\<close>

definition chmod :: "filesystem \<Rightarrow> path \<Rightarrow> nat \<Rightarrow> os_error + filesystem" where
  "chmod fs p bits =
     (case parent_error fs p of
        Some e \<Rightarrow> Inl e
      | None \<Rightarrow>
          if p = [] then Inr fs
          else (case fs p of
                  None \<Rightarrow> Inl FileNotFoundError
                | Some (Dir m) \<Rightarrow> Inr (fs(p \<mapsto> Dir bits))
                | Some (File m s) \<Rightarrow> Inr (fs(p \<mapsto> File bits s))))"

text \<open>
  \<open>resolved / s\<close>: the components of \<open>s\<close> are its pieces between slashes other than the empty
  piece and \<open>.\<close>; a text that starts with a slash replaces the path it is joined to.
\<close>

definition path_join :: "path \<Rightarrow> string \<Rightarrow> path" where
  "path_join p s =
     (let parts = filter (\<lambda>c. c \<noteq> [] \<and> c \<noteq> ''.'') (split_on (CHR ''/'') s)
      in if startswith s ''/'' then parts else p @ parts)"

text \<open>\<open>Path.name\<close>, the last component, empty for the root; and \<open>str(path)\<close>.\<close>

definition path_name :: "path \<Rightarrow> string" where
  "path_name p = (if p = [] then [] else last p)"

definition str_path :: "path \<Rightarrow> string" where
  "str_path p = ''/'' @ join ''/'' p"


section \<open>init\_skill.py\<close>

text \<open>
  Each template is a function of the values that \<open>str.format\<close> puts in the place of
  \<open>{skill_name}\<close> and \<open>{skill_title}\<close>.
\<close>

definition SKILL_TEMPLATE :: "string \<Rightarrow> string \<Rightarrow> string" where
  \<open>SKILL_TEMPLATE skill_name skill_title =
     ''---\<newline>''
     @ ''name: '' @ skill_name @ ''\<newline>''
     @ ''description: [TODO: Explain what this skill does and when to use it. Include specific triggers like file types, tasks, or scenarios.]\<newline>''
     @ ''---\<newline>''
     @ ''\<newline>''
     @ ''# '' @ skill_title @ ''\<newline>''
     @ ''\<newline>''
     @ ''## Overview\<newline>''
     @ ''\<newline>''
     @ ''[TODO: 1-2 sentences explaining what this skill enables]\<newline>''
     @ ''\<newline>''
     @ ''## Workflow\<newline>''
     @ ''\<newline>''
     @ ''[TODO: Add the main workflow or instructions. Choose a structure that fits:\<newline>''
     @ ''\<newline>''
     @ ''**Workflow-Based** (sequential processes):\<newline>''
     @ ''## Workflow Decision Tree -> ## Step 1 -> ## Step 2...\<newline>''
     @ ''\<newline>''
     @ ''**Task-Based** (tool collections):\<newline>''
     @ ''## Quick Start -> ## Task 1 -> ## Task 2...\<newline>''
     @ ''\<newline>''
     @ ''**Reference/Guidelines** (standards):\<newline>''
     @ ''## Guidelines -> ## Specifications -> ## Usage...\<newline>''
     @ ''\<newline>''
     @ ''Delete this guidance section when done.]\<newline>''
     @ ''\<newline>''
     @ ''## Resources\<newline>''
     @ ''\<newline>''
     @ ''Example directories are included to demonstrate structure:\<newline>''
     @ ''\<newline>''
     @ ''- `scripts/`: Executable code (Python/Bash) for automation\<newline>''
     @ ''- `references/`: Documentation loaded into context as needed\<newline>''
     @ ''- `assets/`: Files used in output (templates, images, not loaded into context)\<newline>''
     @ ''\<newline>''
     @ ''Delete any unneeded directories.\<newline>''\<close>

definition EXAMPLE_SCRIPT :: "string \<Rightarrow> string" where
  \<open>EXAMPLE_SCRIPT skill_name =
     ''#!/usr/bin/env python3\<newline>''
     @ ''"""\<newline>''
     @ ''Example helper script for '' @ skill_name @ ''\<newline>''
     @ ''\<newline>''
     @ ''Replace with actual implementation or delete if not needed.\<newline>''
     @ ''"""\<newline>''
     @ ''\<newline>''
     @ ''def main():\<newline>''
     @ ''    print("Example script for '' @ skill_name @ ''")\<newline>''
     @ ''    # TODO: Add actual script logic\<newline>''
     @ ''\<newline>''
     @ ''if __name__ == "__main__":\<newline>''
     @ ''    main()\<newline>''\<close>

definition EXAMPLE_REFERENCE :: "string \<Rightarrow> string" where
  \<open>EXAMPLE_REFERENCE skill_title =
     ''# Reference Documentation for '' @ skill_title @ ''\<newline>''
     @ ''\<newline>''
     @ ''Replace with actual reference content or delete if not needed.\<newline>''
     @ ''\<newline>''
     @ ''Reference docs are ideal for:\<newline>''
     @ ''- Comprehensive API documentation\<newline>''
     @ ''- Detailed workflow guides\<newline>''
     @ ''- Complex multi-step processes\<newline>''
     @ ''- Information too lengthy for main SKILL.md\<newline>''\<close>

definition EXAMPLE_ASSET :: "string" where
  \<open>EXAMPLE_ASSET =
     ''# Example Asset File\<newline>''
     @ ''\<newline>''
     @ ''Replace with actual asset files (templates, images, fonts, etc.) or delete if not needed.\<newline>''
     @ ''\<newline>''
     @ ''Asset files are NOT loaded into context but used in the output Claude produces.\<newline>''
     @ ''\<newline>''
     @ ''Common asset types: .pptx, .docx, .png, .ttf, .csv, boilerplate directories\<newline>''\<close>

text \<open>
  \<open>word.capitalize()\<close>: the first character in upper case, the others in lower case. The
  case mapping is the one of the letters a to z. Other characters stay as they are, so the
  title is that of the source for names in ASCII, which are the names the validator
  accepts; \<open>str.capitalize\<close> also maps the cased letters beyond ASCII, some of them to
  characters above 255 or to two characters.
\<close>

definition upper_char :: "char \<Rightarrow> char" where
  "upper_char c =
     (if CHR ''a'' \<le> c \<and> c \<le> CHR ''z'' then char_of (of_char c - (32 :: nat)) else c)"

definition lower_char :: "char \<Rightarrow> char" where
  "lower_char c =
     (if CHR ''A'' \<le> c \<and> c \<le> CHR ''Z'' then char_of (of_char c + (32 :: nat)) else c)"

definition capitalize :: "string \<Rightarrow> string" where
  "capitalize w = (case w of [] \<Rightarrow> [] | c # cs \<Rightarrow> upper_char c # map lower_char cs)"

definition title_case_skill_name :: "string \<Rightarrow> string" where
  "title_case_skill_name skill_name = join '' '' (map capitalize (split_on (CHR ''-'') skill_name))"

text \<open>
  What the program prints, one entry for each call of \<open>print\<close>: the text, or a text followed
  by the exception it reports.
\<close>

datatype printed = Line string | ErrorLine string os_error

type_synonym world = "filesystem \<times> printed list"

text \<open>
  The statements of a \<open>try\<close> block run in order until one raises; the exception comes with
  the world as the statements before it left it.
\<close>

type_synonym step = "world \<Rightarrow> (os_error \<times> world) + world"

definition fs_step :: "(filesystem \<Rightarrow> os_error + filesystem) \<Rightarrow> step" where
  "fs_step f w = (case f (fst w) of Inl e \<Rightarrow> Inl (e, w) | Inr fs' \<Rightarrow> Inr (fs', snd w))"

definition print_step :: "string \<Rightarrow> step" where
  "print_step s w = Inr (fst w, snd w @ [Line s])"

fun run_steps :: "step list \<Rightarrow> step" where
  "run_steps [] w = Inr w"
| "run_steps (st # sts) w = (case st w of Inl ew \<Rightarrow> Inl ew | Inr w' \<Rightarrow> run_steps sts w')"

text \<open>The \<open>try\<close> block that creates the resource directories (lines 125 to 143).\<close>

definition resource_steps :: "string \<Rightarrow> string \<Rightarrow> path \<Rightarrow> step list" where
  "resource_steps skill_name skill_title skill_dir =
     [fs_step (\<lambda>fs. mkdir fs (skill_dir @ [''scripts'']) False True),
      fs_step (\<lambda>fs. write_text fs (skill_dir @ [''scripts'', ''example.py''])
                       (EXAMPLE_SCRIPT skill_name)),
      fs_step (\<lambda>fs. chmod fs (skill_dir @ [''scripts'', ''example.py'']) 493),
      print_step ''Created scripts/example.py'',
      fs_step (\<lambda>fs. mkdir fs (skill_dir @ [''references'']) False True),
      fs_step (\<lambda>fs. write_text fs (skill_dir @ [''references'', ''REFERENCE.md''])
                       (EXAMPLE_REFERENCE skill_title)),
      print_step ''Created references/REFERENCE.md'',
      fs_step (\<lambda>fs. mkdir fs (skill_dir @ [''assets'']) False True),
      fs_step (\<lambda>fs. write_text fs (skill_dir @ [''assets'', ''example_asset.txt''])
                       EXAMPLE_ASSET),
      print_step ''Created assets/example_asset.txt'']"

text \<open>
  \<open>init_skill(skill_name, path)\<close>, where \<open>path\<close> is \<open>Path(path).resolve()\<close>: the path it
  returns (\<open>None\<close> as in the source), the file system it leaves and what it printed.
\<close>

definition init_skill :: "string \<Rightarrow> path \<Rightarrow> filesystem \<Rightarrow> path option \<times> filesystem \<times> printed list" where
  "init_skill skill_name path fs =
     (let skill_dir = path_join path skill_name
      in if path_exists fs skill_dir then
           (None, fs, [Line (''Error: Skill directory already exists: '' @ str_path skill_dir)])
         else (case mkdir fs skill_dir True False of
           Inl e \<Rightarrow> (None, fs, [ErrorLine ''Error creating directory: '' e])
         | Inr fs1 \<Rightarrow>
             (let out1 = [Line (''Created skill directory: '' @ str_path skill_dir)];
                  skill_title = title_case_skill_name skill_name;
                  skill_content = SKILL_TEMPLATE skill_name skill_title;
                  skill_md_path = skill_dir @ [''SKILL.md'']
              in (case write_text fs1 skill_md_path skill_content of
                Inl e \<Rightarrow> (None, fs1, out1 @ [ErrorLine ''Error creating SKILL.md: '' e])
              | Inr fs2 \<Rightarrow>
                  (case run_steps (resource_steps skill_name skill_title skill_dir)
                          (fs2, out1 @ [Line ''Created SKILL.md'']) of
                     Inl (e, fs3, out3) \<Rightarrow>
                       (None, fs3, out3 @ [ErrorLine ''Error creating resource directories: '' e])
                   | Inr (fs3, out3) \<Rightarrow>
                       (Some skill_dir, fs3,
                        out3 @ [Line ([LF] @ ''Skill '' @ [SQ] @ skill_name @ [SQ]
                                      @ '' initialized at '' @ str_path skill_dir),
                                Line ([LF] @ ''Next steps:''),
                                Line ''1. Edit SKILL.md to complete the TODO items'',
                                Line ''2. Customize or delete example files in scripts/, references/, assets/'',
                                Line ''3. Run quick_validate.py to check the skill structure'']))))))"


section \<open>validate\_skill on a directory\<close>

text \<open>
  \<open>validate_skill(skill_path)\<close>, where \<open>skill_path\<close> is \<open>Path(skill_path).resolve()\<close>. The
  function writes nothing, so it returns no file system; \<open>Inl\<close> is an exception that
  \<open>read_text\<close> raises and nothing catches.
\<close>

definition validate_skill :: "path \<Rightarrow> filesystem \<Rightarrow> os_error + bool \<times> string" where
  "validate_skill skill_path fs =
     (let skill_md = skill_path @ [''SKILL.md'']
      in if \<not> path_exists fs skill_md then Inr (False, ''SKILL.md not found'')
         else (case read_text fs skill_md of
                 Inl e \<Rightarrow> Inl e
               | Inr content \<Rightarrow> Inr (validate_content (path_name skill_path) content)))"


section \<open>The checks of the specification\<close>

text \<open>
  Section 4.2 of the specification lists the checks of the validator in a fixed order. Here
  each check stands on its own: it takes the name of the directory and the document (\<open>None\<close>
  where the directory has no SKILL.md) and gives the message of its failure, \<open>None\<close> where it
  passes. A check looks at what it needs whatever the checks before it said: a document
  that is missing counts as the empty text, a header that cannot be extracted as a header
  with no entry.
\<close>

text \<open>The document of a directory: the text of its SKILL.md as a program reads it.\<close>

definition document :: "filesystem \<Rightarrow> path \<Rightarrow> string option" where
  "document fs skill_path =
     (let skill_md = skill_path @ [''SKILL.md'']
      in if path_exists fs skill_md
         then (case fs skill_md of
                 Some (File m s) \<Rightarrow> Some (universal_newlines s)
               | _ \<Rightarrow> None)
         else None)"

definition text_of :: "string option \<Rightarrow> string" where
  "text_of doc = (case doc of None \<Rightarrow> [] | Some s \<Rightarrow> s)"

definition header_of :: "string option \<Rightarrow> (string \<times> string) list" where
  "header_of doc =
     (case match_frontmatter (text_of doc) of None \<Rightarrow> [] | Some t \<Rightarrow> parse_simple_yaml t)"

type_synonym check = "string \<Rightarrow> string option \<Rightarrow> string option"

definition check_exists :: check where
  "check_exists dir_name doc = (if doc = None then Some ''SKILL.md not found'' else None)"

definition check_marker :: check where
  "check_marker dir_name doc =
     (if startswith (text_of doc) ''---'' then None else Some ''No YAML frontmatter found'')"

definition check_extraction :: check where
  "check_extraction dir_name doc =
     (if match_frontmatter (text_of doc) = None then Some ''Invalid frontmatter format''
      else None)"

text \<open>The parser gives a mapping of strings, so the three checks of a type always pass.\<close>

definition check_mapping_type :: check where
  "check_mapping_type dir_name doc = None"

definition check_unexpected_keys :: check where
  "check_unexpected_keys dir_name doc =
     (let unexpected = filter (\<lambda>k. k \<notin> set ALLOWED_PROPERTIES) (map fst (header_of doc))
      in if unexpected = [] then None
         else Some (''Unexpected key(s) in frontmatter: '' @ join '', '' (sort unexpected)
                    @ ''. Allowed: '' @ join '', '' (sort ALLOWED_PROPERTIES)))"

definition check_name_present :: check where
  "check_name_present dir_name doc =
     (if ''name'' \<in> fst ` set (header_of doc) then None
      else Some (''Missing '' @ [SQ] @ ''name'' @ [SQ] @ '' in frontmatter''))"

definition check_description_present :: check where
  "check_description_present dir_name doc =
     (if ''description'' \<in> fst ` set (header_of doc) then None
      else Some (''Missing '' @ [SQ] @ ''description'' @ [SQ] @ '' in frontmatter''))"

definition check_name_type :: check where
  "check_name_type dir_name doc = None"

definition check_name_content :: check where
  "check_name_content dir_name doc =
     (let name = strip (dict_get (header_of doc) ''name'' [])
      in if name = [] then None else name_checks dir_name name)"

definition check_description_type :: check where
  "check_description_type dir_name doc = None"

definition check_description_content :: check where
  "check_description_content dir_name doc =
     (let description = strip (dict_get (header_of doc) ''description'' [])
      in if description = [] then None else description_checks description)"

definition check_line_count :: check where
  "check_line_count dir_name doc =
     (let n = length (split_on LF (text_of doc))
      in if n \<le> 500 then None
         else Some (''SKILL.md has '' @ str_nat n @ '' lines. Maximum recommended is 500.''))"

text \<open>The checks before the line count, in the order of the specification, and all of them.\<close>

definition earlier_checks :: "check list" where
  "earlier_checks =
     [check_exists, check_marker, check_extraction, check_mapping_type, check_unexpected_keys,
      check_name_present, check_description_present, check_name_type, check_name_content,
      check_description_type, check_description_content]"

definition checks :: "check list" where
  "checks = earlier_checks @ [check_line_count]"

text \<open>The answer that the first failure in a list of outcomes decides.\<close>

fun first_failure :: "string option list \<Rightarrow> bool \<times> string" where
  "first_failure [] = (True, ''Skill is valid!'')"
| "first_failure (None # rs) = first_failure rs"
| "first_failure (Some msg # rs) = (False, msg)"

text \<open>
  A line after the first that is the marker and nothing else, as the specification words the
  end of the header.
\<close>

definition second_marker_line :: "string \<Rightarrow> bool" where
  "second_marker_line content = (''---'' \<in> set (tl (split_on LF content)))"


section \<open>Properties\<close>

subsection \<open>Strings\<close>

lemma split_on_not_Nil: "split_on sep s \<noteq> []"
  by (induction s) (auto split: list.splits)

lemma hd_split_on: "hd (split_on sep s) = takeWhile (\<lambda>c. c \<noteq> sep) s"
  using split_on_not_Nil [of sep]
  by (induction s) (auto split: list.splits)

lemma length_split_on: "length (split_on sep s) = Suc (length (filter (\<lambda>c. c = sep) s))"
  using split_on_not_Nil [of sep]
  by (induction s) (auto split: list.splits)

lemma key_char_not_space: "key_char c \<Longrightarrow> \<not> isspace c"
  by (auto simp: key_char_def isspace_def less_eq_char_def Let_def)

lemma key_char_not_colon: "\<not> key_char (CHR '':'')"
  by (simp add: key_char_def less_eq_char_def)

lemma key_char_not_hash: "\<not> key_char (CHR ''#'')"
  by (simp add: key_char_def less_eq_char_def)

lemma quote_not_space: "\<not> isspace DQ" "\<not> isspace SQ"
  by (simp_all add: isspace_def)

lemma strip_sandwich:
  assumes "\<forall>c \<in> set a. isspace c" "\<forall>c \<in> set b. isspace c"
    and "m \<noteq> []" "\<not> isspace (hd m)" "\<not> isspace (last m)"
  shows "strip (a @ m @ b) = m"
proof -
  have 1: "dropWhile isspace (a @ m @ b) = m @ b"
    using assms(1,3,4) by (cases m) (auto simp: dropWhile_append)
  have 2: "dropWhile isspace (rev (m @ b)) = rev m"
    using assms(2,3,5) by (cases m rule: rev_cases) (auto simp: dropWhile_append)
  from 2 have "rev (dropWhile isspace (rev (m @ b))) = m" by simp
  then show ?thesis unfolding strip_def 1 .
qed

subsection \<open>Header lines\<close>

lemma match_key_value_shape:
  assumes "key \<noteq> []" "\<forall>c \<in> set key. key_char c" "\<forall>c \<in> set ws. isspace c"
    and "\<not> isspace q" "q \<noteq> LF"
  shows "match_key_value (key @ '':'' @ ws @ [q]) = Some (key, [q])"
proof -
  have t: "takeWhile key_char (key @ CHR '':'' # ws @ [q]) = key"
    using assms(2) key_char_not_colon by (simp add: takeWhile_tail)
  have d: "dropWhile key_char (key @ CHR '':'' # ws @ [q]) = CHR '':'' # ws @ [q]"
    using assms(2) key_char_not_colon by (simp add: dropWhile_append)
  have u: "dropWhile isspace (ws @ [q]) = [q]"
    using assms(3,4) by (simp add: dropWhile_append)
  show ?thesis
    using assms(1,5) by (simp add: match_key_value_def t d u)
qed

text \<open>
  Claim C9: a header line \<open>key: value\<close> whose value, once trimmed, is one quote character
  (double or single) stores the empty string under its key: the value of one character
  starts and ends with the quote, so the quotes are stripped. The line is any white space, a
  key of key characters, a colon, any white space, the quote, any white space.
\<close>

theorem lone_quote_value_stored_empty:
  assumes "key \<noteq> []" and "\<forall>c \<in> set key. key_char c"
    and "\<forall>c \<in> set ws0. isspace c" and "\<forall>c \<in> set ws1. isspace c"
    and "\<forall>c \<in> set ws2. isspace c"
    and "q = DQ \<or> q = SQ"
  shows "map_of (parse_step result (ws0 @ key @ '':'' @ ws1 @ [q] @ ws2)) key = Some []"
proof -
  define m where "m = key @ '':'' @ ws1 @ [q]"
  have q: "\<not> isspace q" "q \<noteq> LF"
    using assms(6) quote_not_space by auto
  have hd_m: "hd m = hd key" and m_ne: "m \<noteq> []" and last_m: "last m = q"
    using assms(1) by (simp_all add: m_def)
  have kc: "key_char (hd key)"
    using assms(1,2) by (cases key) auto
  have "strip (ws0 @ m @ ws2) = m"
    using assms(3,5) m_ne q(1) kc key_char_not_space
    by (intro strip_sandwich) (simp_all add: hd_m last_m)
  then have s: "strip (ws0 @ key @ '':'' @ ws1 @ [q] @ ws2) = m"
    by (simp add: m_def)
  have h: "\<not> startswith m ''#''"
    using kc key_char_not_hash m_ne hd_m by (cases m) (auto simp: startswith_def)
  have mk: "match_key_value m = Some (key, [q])"
    unfolding m_def using assms(1,2,4) q by (rule match_key_value_shape)
  have sq: "strip [q] = [q]"
    using q(1) by (simp add: strip_def)
  have quoted: "(startswith [q] [DQ] \<and> endswith [q] [DQ]) \<or> (startswith [q] [SQ] \<and> endswith [q] [SQ])"
    using assms(6) by (auto simp: startswith_def endswith_def)
  have "line_entry (ws0 @ key @ '':'' @ ws1 @ [q] @ ws2) = Some (key, [])"
    unfolding line_entry_def Let_def s
    using m_ne h quoted by (simp add: mk sq)
  then show ?thesis
    by (simp add: parse_step_def update_conv')
qed

theorem lone_quote_value_stored_empty_witness:
  "map_of (parse_step [(''name'', ''old'')] (''  name:   '' @ [DQ] @ '' '')) ''name'' = Some []
   \<and> map_of (parse_step [] (''license: '' @ [SQ])) ''license'' = Some []"
  using lone_quote_value_stored_empty [of "''name''" "''  ''" "''   ''" "'' ''" DQ "[(''name'', ''old'')]"]
    lone_quote_value_stored_empty [of "''license''" "[]" "'' ''" "[]" SQ "[]"]
  by (simp add: key_char_def isspace_def less_eq_char_def)

subsection \<open>The first line of the document\<close>

lemma hd_split_marker:
  assumes "startswith content ''---''" and "hd (split_on LF content) \<noteq> ''---''"
  shows "match_frontmatter content = None"
proof -
  have "\<not> prefix (''---'' @ [LF]) content"
  proof
    assume "prefix (''---'' @ [LF]) content"
    then obtain r where "content = (''---'' @ [LF]) @ r"
      by (auto simp: prefix_def)
    then have "hd (split_on LF content) = ''---''"
      by (simp add: hd_split_on)
    with assms(2) show False by simp
  qed
  then show ?thesis by (simp add: match_frontmatter_def)
qed

text \<open>
  Claim C10: a document that starts with \<open>---\<close> and whose first line is not exactly
  \<open>---\<close> passes the marker check and fails extraction: the validator answers
  \<open>Invalid frontmatter format\<close>, not \<open>No YAML frontmatter found\<close>.
\<close>

theorem first_line_not_marker_invalid_format:
  assumes "startswith content ''---''" and "hd (split_on LF content) \<noteq> ''---''"
  shows "validate_content dir_name content = (False, ''Invalid frontmatter format'')"
  using assms by (simp add: validate_content_def hd_split_marker)

theorem first_line_not_marker_invalid_format_witness:
  "validate_content ''foo'' ''----\<newline>name: foo\<newline>description: x\<newline>---\<newline>''
     = (False, ''Invalid frontmatter format'')
   \<and> validate_content ''foo'' ''--- \<newline>name: foo\<newline>description: x\<newline>---\<newline>''
     = (False, ''Invalid frontmatter format'')"
  using first_line_not_marker_invalid_format
      [of "''----\<newline>name: foo\<newline>description: x\<newline>---\<newline>''" "''foo''"]
    first_line_not_marker_invalid_format
      [of "''--- \<newline>name: foo\<newline>description: x\<newline>---\<newline>''" "''foo''"]
  by (simp add: startswith_def)

subsection \<open>The initializer on a target that exists\<close>

text \<open>
  Claim C8: when the target directory, the destination joined with the identifier, exists,
  \<open>init_skill\<close> returns no path and leaves the file system as it found it: no directory
  made, no file written, no permission changed.
\<close>

theorem init_skill_existing_target_unchanged:
  assumes "path_exists fs (path_join path skill_name)"
  shows "init_skill skill_name path fs =
           (None, fs, [Line (''Error: Skill directory already exists: ''
                             @ str_path (path_join path skill_name))])"
  using assms by (simp add: init_skill_def Let_def)

theorem init_skill_existing_target_unchanged_witness:
  "path_exists (Map.empty([''tmp''] \<mapsto> Dir 493, [''tmp'', ''foo''] \<mapsto> Dir 493))
     (path_join [''tmp''] ''foo'')
   \<and> init_skill ''foo'' [''tmp''] (Map.empty([''tmp''] \<mapsto> Dir 493, [''tmp'', ''foo''] \<mapsto> Dir 493))
     = (None, Map.empty([''tmp''] \<mapsto> Dir 493, [''tmp'', ''foo''] \<mapsto> Dir 493),
        [Line ''Error: Skill directory already exists: /tmp/foo''])"
proof -
  have e: "path_exists (Map.empty([''tmp''] \<mapsto> Dir 493, [''tmp'', ''foo''] \<mapsto> Dir 493))
     (path_join [''tmp''] ''foo'')"
    by (simp add: path_exists_def path_join_def parent_error_def startswith_def)
  have j: "str_path (path_join [''tmp''] ''foo'') = ''/tmp/foo''"
    by (simp add: path_join_def str_path_def startswith_def)
  show ?thesis
    using e init_skill_existing_target_unchanged [OF e] by (simp add: j)
qed

subsection \<open>The parser on repeated keys\<close>

lemma map_of_parse_step:
  "map_of (parse_step d l) k =
     (case line_entry l of
        None \<Rightarrow> map_of d k
      | Some (k', v) \<Rightarrow> if k' = k then Some v else map_of d k)"
  by (simp add: parse_step_def update_conv' split: option.splits)

lemma foldl_parse_step_last:
  assumes "j < length ls" and "line_entry (ls ! j) = Some (k, v)"
    and "\<forall>l. j < l \<and> l < length ls \<longrightarrow> (\<forall>v'. line_entry (ls ! l) \<noteq> Some (k, v'))"
  shows "map_of (foldl parse_step d ls) k = Some v"
  using assms
proof (induction ls rule: rev_induct)
  case Nil
  then show ?case by simp
next
  case (snoc x xs)
  show ?case
  proof (cases "j = length xs")
    case True
    with snoc.prems(2) show ?thesis
      by (simp add: map_of_parse_step)
  next
    case False
    with snoc.prems(1) have j: "j < length xs" by simp
    have x: "\<forall>v'. line_entry x \<noteq> Some (k, v')"
      using snoc.prems(3) j by (auto dest: spec [of _ "length xs"])
    have "map_of (foldl parse_step d xs) k = Some v"
    proof (rule snoc.IH [OF j])
      show "line_entry (xs ! j) = Some (k, v)"
        using snoc.prems(2) j by (simp add: nth_append)
      show "\<forall>l. j < l \<and> l < length xs \<longrightarrow> (\<forall>v'. line_entry (xs ! l) \<noteq> Some (k, v'))"
      proof (intro allI impI)
        fix l v' assume l: "j < l \<and> l < length xs"
        then have "line_entry ((xs @ [x]) ! l) \<noteq> Some (k, v')"
          using snoc.prems(3) by auto
        with l show "line_entry (xs ! l) \<noteq> Some (k, v')"
          by (simp add: nth_append)
      qed
    qed
    with x show ?thesis
      by (auto simp: map_of_parse_step split: option.splits)
  qed
qed

text \<open>
  Claim C6: when two or more lines of a header text give the same key, the mapping the
  parser returns binds the key to the value of the last of them. The lines are those the
  loop runs over; line \<open>j\<close> is the last that stores under \<open>k\<close> and line \<open>i\<close> an earlier one.
  The parser returns the mapping and nothing else: it has no error and no warning to give.
\<close>

theorem duplicate_keys_last_write_wins:
  assumes "ls = split_on LF (strip text)"
    and "i < j" and "j < length ls"
    and "line_entry (ls ! i) = Some (k, v1)" and "line_entry (ls ! j) = Some (k, v2)"
    and "\<forall>l. j < l \<and> l < length ls \<longrightarrow> (\<forall>v'. line_entry (ls ! l) \<noteq> Some (k, v'))"
  shows "map_of (parse_simple_yaml text) k = Some v2"
  unfolding parse_simple_yaml_def assms(1) [symmetric]
  using assms(3,5,6) by (rule foldl_parse_step_last)

theorem duplicate_keys_last_write_wins_witness:
  "map_of (parse_simple_yaml ''name: a\<newline>license: MIT\<newline>name: b\<newline># name: c\<newline>description: d'') ''name''
     = Some ''b''"
proof -
  let ?text = "''name: a\<newline>license: MIT\<newline>name: b\<newline># name: c\<newline>description: d''"
  let ?ls = "[''name: a'', ''license: MIT'', ''name: b'', ''# name: c'', ''description: d'']"
  have ls: "?ls = split_on LF (strip ?text)"
    by code_simp
  have e0: "line_entry (?ls ! 0) = Some (''name'', ''a'')" by code_simp
  have e2: "line_entry (?ls ! 2) = Some (''name'', ''b'')" by code_simp
  have e3: "line_entry (?ls ! 3) = None" by code_simp
  have e4: "line_entry (?ls ! 4) = Some (''description'', ''d'')" by code_simp
  have later: "\<forall>l. 2 < l \<and> l < length ?ls \<longrightarrow> (\<forall>v'. line_entry (?ls ! l) \<noteq> Some (''name'', v'))"
  proof (intro allI impI)
    fix l v' assume "2 < l \<and> l < length ?ls"
    then have "l = 3 \<or> l = 4" by auto
    then show "line_entry (?ls ! l) \<noteq> Some (''name'', v')"
      using e3 e4 by auto
  qed
  show ?thesis
    using duplicate_keys_last_write_wins [OF ls _ _ e0 e2 later] by simp
qed

subsection \<open>The validator and the ordered checks\<close>

lemma map_of_eq_None_keys: "(map_of d k = None) = (k \<notin> fst ` set d)"
  by (simp add: map_of_eq_None_iff)

lemma validate_content_first_failure:
  "validate_content dir_name content =
     first_failure (map (\<lambda>c. c dir_name (Some content)) (tl checks))"
proof (cases "startswith content ''---''")
  case False
  then show ?thesis
    by (simp add: validate_content_def checks_def earlier_checks_def check_marker_def text_of_def)
next
  case marker: True
  show ?thesis
  proof (cases "match_frontmatter content")
    case None
    with marker show ?thesis
      by (simp add: validate_content_def checks_def earlier_checks_def check_marker_def
          check_extraction_def text_of_def)
  next
    case (Some t)
    have h: "header_of (Some content) = parse_simple_yaml t"
      by (simp add: header_of_def text_of_def Some)
    show ?thesis
      using marker Some
      by (simp add: validate_content_def checks_def earlier_checks_def check_marker_def
          check_extraction_def check_mapping_type_def check_unexpected_keys_def
          check_name_present_def check_description_present_def check_name_type_def
          check_name_content_def check_description_type_def check_description_content_def
          check_line_count_def h text_of_def Let_def map_of_eq_None_keys
          split: option.splits)
  qed
qed

text \<open>
  Claim C3: the validator returns one pair of a truth value and a message, and a failure
  carries the message of the first check that fails in the order of section 4.2 (existence
  of the file, marker, extraction, mapping type, unexpected keys, name present, description
  present, name type, name content, description type, description content, line count),
  whatever the later checks say. The directory holds a document or no SKILL.md at all.
\<close>

theorem validate_skill_first_failing_check:
  assumes "\<not> is_dir fs (skill_path @ [''SKILL.md''])"
  shows "validate_skill skill_path fs =
           Inr (first_failure
                  (map (\<lambda>c. c (path_name skill_path) (document fs skill_path)) checks))"
proof (cases "path_exists fs (skill_path @ [''SKILL.md''])")
  case False
  then show ?thesis
    by (simp add: validate_skill_def document_def checks_def earlier_checks_def check_exists_def)
next
  case True
  then have pe: "parent_error fs (skill_path @ [''SKILL.md'']) = None"
    and ne: "fs (skill_path @ [''SKILL.md'']) \<noteq> None"
    by (simp_all add: path_exists_def)
  from assms pe ne obtain m stored
    where f: "fs (skill_path @ [''SKILL.md'']) = Some (File m stored)"
    by (auto simp: is_dir_def split: option.splits node.splits)
  define content where "content = universal_newlines stored"
  have d: "document fs skill_path = Some content"
    using True f by (simp add: document_def content_def)
  have r: "read_text fs (skill_path @ [''SKILL.md'']) = Inr content"
    using pe f by (simp add: read_text_def content_def)
  have c: "checks = check_exists # tl checks"
    by (simp add: checks_def earlier_checks_def)
  have "first_failure (map (\<lambda>c. c (path_name skill_path) (Some content)) checks)
        = first_failure (map (\<lambda>c. c (path_name skill_path) (Some content)) (tl checks))"
    by (subst c) (simp add: check_exists_def)
  then show ?thesis
    using True by (simp add: validate_skill_def r d validate_content_first_failure)
qed

theorem validate_skill_first_failing_check_witness:
  "\<not> is_dir (Map.empty([''foo''] \<mapsto> Dir 493,
                        [''foo'', ''SKILL.md''] \<mapsto> File 420 ''---\<newline>Name: bar-\<newline>zeta: <x>\<newline>---\<newline>''))
       ([''foo''] @ [''SKILL.md''])
   \<and> validate_skill [''foo'']
        (Map.empty([''foo''] \<mapsto> Dir 493,
                   [''foo'', ''SKILL.md''] \<mapsto> File 420 ''---\<newline>Name: bar-\<newline>zeta: <x>\<newline>---\<newline>''))
      = Inr (False, ''Unexpected key(s) in frontmatter: Name, zeta. Allowed: allowed-tools, description, license, metadata, name'')
   \<and> check_name_present ''foo'' (Some ''---\<newline>Name: bar-\<newline>zeta: <x>\<newline>---\<newline>'') \<noteq> None
   \<and> check_description_present ''foo'' (Some ''---\<newline>Name: bar-\<newline>zeta: <x>\<newline>---\<newline>'') \<noteq> None"
proof -
  let ?c = "''---\<newline>Name: bar-\<newline>zeta: <x>\<newline>---\<newline>''"
  let ?fs = "Map.empty([''foo''] \<mapsto> Dir 493, [''foo'', ''SKILL.md''] \<mapsto> File 420 ?c)"
  have nd: "\<not> is_dir ?fs ([''foo''] @ [''SKILL.md''])"
    by (simp add: is_dir_def)
  have un: "universal_newlines ?c = ?c"
    by code_simp
  have doc: "document ?fs [''foo''] = Some ?c"
    by (simp add: document_def path_exists_def parent_error_def un)
  have h: "header_of (Some ?c) = [(''Name'', ''bar-''), (''zeta'', ''<x>'')]"
    by code_simp
  have ff: "first_failure (map (\<lambda>c. c ''foo'' (Some ?c)) checks)
      = (False, ''Unexpected key(s) in frontmatter: Name, zeta. Allowed: allowed-tools, description, license, metadata, name'')"
    by code_simp
  have np: "check_name_present ''foo'' (Some ?c) \<noteq> None"
    by (simp add: check_name_present_def h)
  have dp: "check_description_present ''foo'' (Some ?c) \<noteq> None"
    by (simp add: check_description_present_def h)
  show ?thesis
    using nd validate_skill_first_failing_check [OF nd] np dp
    by (simp add: doc ff path_name_def)
qed

lemma first_failure_passed:
  "\<forall>r \<in> set rs. r = None \<Longrightarrow> first_failure (rs @ qs) = first_failure qs"
  by (induction rs) auto

text \<open>
  Claim C7: for a document that passes every check before the line count, at most 500
  pieces of the text split at line feeds pass the line count, so the document is valid, and
  501 pieces fail it with a message that reports 501.
\<close>

theorem line_count_boundary:
  assumes "\<forall>c \<in> set earlier_checks. c dir_name (Some content) = None"
  shows "(length (split_on LF content) \<le> 500 \<longrightarrow>
            validate_content dir_name content = (True, ''Skill is valid!''))
         \<and> (length (split_on LF content) = 501 \<longrightarrow>
            validate_content dir_name content =
              (False, ''SKILL.md has 501 lines. Maximum recommended is 500.''))"
proof -
  have t: "tl checks = tl earlier_checks @ [check_line_count]"
    by (simp add: checks_def earlier_checks_def)
  have "\<forall>c \<in> set (tl earlier_checks). c dir_name (Some content) = None"
    using assms by (simp add: earlier_checks_def)
  then have "\<forall>r \<in> set (map (\<lambda>c. c dir_name (Some content)) (tl earlier_checks)). r = None"
    by simp
  then have v: "validate_content dir_name content
                = first_failure [check_line_count dir_name (Some content)]"
    unfolding validate_content_first_failure t map_append
    by (simp only: first_failure_passed list.map)
  have n: "str_nat 501 = ''501''"
    by code_simp
  show ?thesis
    by (simp add: v check_line_count_def text_of_def Let_def n)
qed

theorem line_count_boundary_witness:
  "length (split_on LF (''---\<newline>name: foo\<newline>description: x\<newline>---'' @ replicate 496 LF)) = 500
   \<and> validate_content ''foo'' (''---\<newline>name: foo\<newline>description: x\<newline>---'' @ replicate 496 LF)
       = (True, ''Skill is valid!'')
   \<and> length (split_on LF (''---\<newline>name: foo\<newline>description: x\<newline>---'' @ replicate 497 LF)) = 501
   \<and> validate_content ''foo'' (''---\<newline>name: foo\<newline>description: x\<newline>---'' @ replicate 497 LF)
       = (False, ''SKILL.md has 501 lines. Maximum recommended is 500.'')"
proof -
  let ?h = "''---\<newline>name: foo\<newline>description: x\<newline>---''"
  have e500: "\<forall>c \<in> set earlier_checks. c ''foo'' (Some (?h @ replicate 496 LF)) = None"
    by code_simp
  have e501: "\<forall>c \<in> set earlier_checks. c ''foo'' (Some (?h @ replicate 497 LF)) = None"
    by code_simp
  have l500: "length (split_on LF (?h @ replicate 496 LF)) = 500"
    unfolding length_split_on by simp
  have l501: "length (split_on LF (?h @ replicate 497 LF)) = 501"
    unfolding length_split_on by simp
  show ?thesis
    using line_count_boundary [OF e500] line_count_boundary [OF e501] l500 l501
    by simp
qed

subsection \<open>Unexpected keys\<close>

lemma distinct_keys_parse_step:
  "distinct (map fst d) \<Longrightarrow> distinct (map fst (parse_step d l))"
  by (simp add: parse_step_def distinct_update split: option.splits)

lemma distinct_keys_foldl:
  "distinct (map fst d) \<Longrightarrow> distinct (map fst (foldl parse_step d ls))"
  by (induction ls arbitrary: d) (simp_all add: distinct_keys_parse_step)

lemma distinct_keys_parse: "distinct (map fst (parse_simple_yaml t))"
  by (simp add: parse_simple_yaml_def distinct_keys_foldl)

lemma sort_filter_distinct:
  assumes "distinct xs"
  shows "sort (filter P xs) = sorted_list_of_set {x \<in> set xs. P x}"
proof -
  have "sorted_list_of_set (set (filter P xs)) = sort (remdups (filter P xs))"
    by (rule sorted_list_of_set_sort_remdups)
  moreover have "remdups (filter P xs) = filter P xs"
    using assms by (simp add: distinct_remdups_id)
  moreover have "set (filter P xs) = {x \<in> set xs. P x}"
    by simp
  ultimately show ?thesis by simp
qed

lemma match_frontmatter_startswith:
  "match_frontmatter content = Some t \<Longrightarrow> startswith content ''---''"
  by (auto simp: match_frontmatter_def startswith_def prefix_def split: if_splits)

lemma allowed_sorted:
  "join '', '' (sort ALLOWED_PROPERTIES) = ''allowed-tools, description, license, metadata, name''"
  by code_simp

text \<open>
  Claim C4: when the parsed header has a key outside \<open>name\<close>, \<open>description\<close>, \<open>license\<close>,
  \<open>allowed-tools\<close>, \<open>metadata\<close> (and the document is there and its header extracted), the
  validator fails, and its message lists the offending keys and no other, sorted and joined
  by commas, and then the allowed keys, sorted and joined by commas.
\<close>

theorem unexpected_keys_reported:
  assumes "match_frontmatter content = Some t"
    and "\<not> fst ` set (parse_simple_yaml t)
           \<subseteq> {''name'', ''description'', ''license'', ''allowed-tools'', ''metadata''}"
  shows "validate_content dir_name content =
           (False, ''Unexpected key(s) in frontmatter: ''
                   @ join '', '' (sorted_list_of_set
                        (fst ` set (parse_simple_yaml t)
                         - {''name'', ''description'', ''license'', ''allowed-tools'', ''metadata''}))
                   @ ''. Allowed: allowed-tools, description, license, metadata, name'')"
proof -
  let ?keys = "map fst (parse_simple_yaml t)"
  let ?bad = "filter (\<lambda>k. k \<notin> set ALLOWED_PROPERTIES) ?keys"
  have a: "set ALLOWED_PROPERTIES
           = {''name'', ''description'', ''license'', ''allowed-tools'', ''metadata''}"
    by (simp add: ALLOWED_PROPERTIES_def)
  have ne: "?bad \<noteq> []"
    using assms(2) unfolding a [symmetric] by (auto simp: filter_empty_conv)
  have "{x \<in> set ?keys. x \<notin> set ALLOWED_PROPERTIES}
        = fst ` set (parse_simple_yaml t) - set ALLOWED_PROPERTIES"
    by auto
  then have s: "sort ?bad = sorted_list_of_set
                  (fst ` set (parse_simple_yaml t) - set ALLOWED_PROPERTIES)"
    using sort_filter_distinct [OF distinct_keys_parse, of "\<lambda>k. k \<notin> set ALLOWED_PROPERTIES" t]
    by simp
  have "validate_content dir_name content =
          (False, ''Unexpected key(s) in frontmatter: '' @ join '', '' (sort ?bad)
                  @ ''. Allowed: '' @ join '', '' (sort ALLOWED_PROPERTIES))"
    using match_frontmatter_startswith [OF assms(1)] ne
    by (simp add: validate_content_def assms(1) Let_def)
  then show ?thesis
    unfolding a [symmetric] by (simp add: s allowed_sorted)
qed

theorem unexpected_keys_reported_witness:
  "validate_content ''foo''
     ''---\<newline>name: foo\<newline>zeta: 1\<newline>description: x\<newline>Alpha: 2\<newline>zeta: 3\<newline>---\<newline>''
   = (False, ''Unexpected key(s) in frontmatter: Alpha, zeta. Allowed: allowed-tools, description, license, metadata, name'')"
proof -
  let ?c = "''---\<newline>name: foo\<newline>zeta: 1\<newline>description: x\<newline>Alpha: 2\<newline>zeta: 3\<newline>---\<newline>''"
  let ?t = "''name: foo\<newline>zeta: 1\<newline>description: x\<newline>Alpha: 2\<newline>zeta: 3''"
  have m: "match_frontmatter ?c = Some ?t"
    by code_simp
  have p: "parse_simple_yaml ?t
           = [(''name'', ''foo''), (''zeta'', ''3''), (''description'', ''x''), (''Alpha'', ''2'')]"
    by code_simp
  have k: "\<not> fst ` set (parse_simple_yaml ?t)
             \<subseteq> {''name'', ''description'', ''license'', ''allowed-tools'', ''metadata''}"
    by (simp add: p)
  have d: "fst ` set (parse_simple_yaml ?t)
             - {''name'', ''description'', ''license'', ''allowed-tools'', ''metadata''}
           = set [''Alpha'', ''zeta'']"
    by (auto simp: p)
  have srt: "sorted_list_of_set (set [''Alpha'', ''zeta'']) = [''Alpha'', ''zeta'']"
    by code_simp
  show ?thesis
    using unexpected_keys_reported [OF m k, of "''foo''"]
    unfolding d srt by simp
qed

subsection \<open>Empty name and empty description\<close>

text \<open>
  Claim C5: a header whose \<open>name\<close> is there with a value that is empty once trimmed
  satisfies the check that the name is present, and none of the four checks on the content
  of the name runs: the answer is that of the description checks and the line count, whatever
  the directory is called. In the same way an empty \<open>description\<close> skips the checks for
  angle brackets and length. So a document with both empty and at most 500 lines is valid in
  a directory of any name.
\<close>

theorem empty_name_or_description_skips_checks:
  assumes "match_frontmatter content = Some t"
    and "fst ` set (parse_simple_yaml t) \<subseteq> set ALLOWED_PROPERTIES"
    and "map_of (parse_simple_yaml t) ''name'' = Some n"
    and "map_of (parse_simple_yaml t) ''description'' = Some d"
  shows "(strip n = [] \<longrightarrow>
            validate_content dir_name content =
              (case (if strip d \<noteq> [] then description_checks (strip d) else None) of
                 Some msg \<Rightarrow> (False, msg)
               | None \<Rightarrow>
                   if length (split_on LF content) > 500
                   then (False, ''SKILL.md has '' @ str_nat (length (split_on LF content))
                                @ '' lines. Maximum recommended is 500.'')
                   else (True, ''Skill is valid!'')))
         \<and> (strip d = [] \<longrightarrow>
            validate_content dir_name content =
              (case (if strip n \<noteq> [] then name_checks dir_name (strip n) else None) of
                 Some msg \<Rightarrow> (False, msg)
               | None \<Rightarrow>
                   if length (split_on LF content) > 500
                   then (False, ''SKILL.md has '' @ str_nat (length (split_on LF content))
                                @ '' lines. Maximum recommended is 500.'')
                   else (True, ''Skill is valid!'')))
         \<and> (strip n = [] \<and> strip d = [] \<and> length (split_on LF content) \<le> 500 \<longrightarrow>
            validate_content dir_name content = (True, ''Skill is valid!''))"
proof -
  have u: "filter (\<lambda>k. k \<notin> set ALLOWED_PROPERTIES) (map fst (parse_simple_yaml t)) = []"
    using assms(2) by (auto simp: filter_empty_conv)
  have v: "validate_content dir_name content =
             (case (if strip n \<noteq> [] then name_checks dir_name (strip n) else None) of
                Some msg \<Rightarrow> (False, msg)
              | None \<Rightarrow>
                  (case (if strip d \<noteq> [] then description_checks (strip d) else None) of
                     Some msg \<Rightarrow> (False, msg)
                   | None \<Rightarrow>
                       if length (split_on LF content) > 500
                       then (False, ''SKILL.md has '' @ str_nat (length (split_on LF content))
                                    @ '' lines. Maximum recommended is 500.'')
                       else (True, ''Skill is valid!'')))"
    using match_frontmatter_startswith [OF assms(1)]
    by (simp add: validate_content_def assms(1,3,4) u dict_get_def Let_def
        cong: option.case_cong)
  show ?thesis
    by (simp add: v cong: option.case_cong)
qed

theorem empty_name_or_description_skips_checks_witness:
  "validate_content ''foo'' ''---\<newline>name:\<newline>description: <b>\<newline>---\<newline>''
     = (False, ''Description cannot contain angle brackets (< or >)'')
   \<and> validate_content ''foo'' ''---\<newline>name: bar\<newline>description:\<newline>---\<newline>''
     = (False, ''Name '' @ [SQ] @ ''bar'' @ [SQ] @ '' does not match directory name ''
               @ [SQ] @ ''foo'' @ [SQ])
   \<and> validate_content ''foo'' ''---\<newline>name:\<newline>description:\<newline>---\<newline>''
     = (True, ''Skill is valid!'')"
proof -
  let ?c1 = "''---\<newline>name:\<newline>description: <b>\<newline>---\<newline>''"
  let ?c2 = "''---\<newline>name: bar\<newline>description:\<newline>---\<newline>''"
  let ?c3 = "''---\<newline>name:\<newline>description:\<newline>---\<newline>''"
  have m1: "match_frontmatter ?c1 = Some ''name:\<newline>description: <b>''" by code_simp
  have m2: "match_frontmatter ?c2 = Some ''name: bar\<newline>description:''" by code_simp
  have m3: "match_frontmatter ?c3 = Some ''name:\<newline>description:''" by code_simp
  have p1: "parse_simple_yaml ''name:\<newline>description: <b>''
            = [(''name'', []), (''description'', ''<b>'')]" by code_simp
  have p2: "parse_simple_yaml ''name: bar\<newline>description:''
            = [(''name'', ''bar''), (''description'', [])]" by code_simp
  have p3: "parse_simple_yaml ''name:\<newline>description:''
            = [(''name'', []), (''description'', [])]" by code_simp
  have s: "strip [] = []" "strip ''<b>'' = ''<b>''" "strip ''bar'' = ''bar''"
    by code_simp+
  have d: "description_checks ''<b>''
           = Some ''Description cannot contain angle brackets (< or >)''"
    by code_simp
  have nc: "name_checks ''foo'' ''bar''
            = Some (''Name '' @ [SQ] @ ''bar'' @ [SQ] @ '' does not match directory name ''
                    @ [SQ] @ ''foo'' @ [SQ])"
    by code_simp
  have l: "length (split_on LF ?c3) \<le> 500" by code_simp
  have a1: "fst ` set (parse_simple_yaml ''name:\<newline>description: <b>'') \<subseteq> set ALLOWED_PROPERTIES"
    by (simp add: p1 ALLOWED_PROPERTIES_def)
  have a2: "fst ` set (parse_simple_yaml ''name: bar\<newline>description:'') \<subseteq> set ALLOWED_PROPERTIES"
    by (simp add: p2 ALLOWED_PROPERTIES_def)
  have a3: "fst ` set (parse_simple_yaml ''name:\<newline>description:'') \<subseteq> set ALLOWED_PROPERTIES"
    by (simp add: p3 ALLOWED_PROPERTIES_def)
  have r1: "validate_content ''foo'' ?c1
            = (False, ''Description cannot contain angle brackets (< or >)'')"
    using empty_name_or_description_skips_checks
      [OF m1 a1, of "[]" "''<b>''" "''foo''"]
    by (simp add: p1 s d)
  have r2: "validate_content ''foo'' ?c2
            = (False, ''Name '' @ [SQ] @ ''bar'' @ [SQ] @ '' does not match directory name ''
                      @ [SQ] @ ''foo'' @ [SQ])"
    using empty_name_or_description_skips_checks
      [OF m2 a2, of "''bar''" "[]" "''foo''"]
    by (simp add: p2 s nc)
  have r3: "validate_content ''foo'' ?c3 = (True, ''Skill is valid!'')"
    using empty_name_or_description_skips_checks
      [OF m3 a3, of "[]" "[]" "''foo''"] l
    by (simp add: p3 s)
  show ?thesis
    using r1 r2 r3 by simp
qed

subsection \<open>Extraction of the header\<close>

lemma lazy_until_marker_decomp:
  "lazy_until_marker s = Some t \<Longrightarrow> \<exists>rest. s = t @ [LF] @ ''---'' @ rest"
proof (induction s arbitrary: t)
  case Nil
  then show ?case by simp
next
  case (Cons c cs)
  show ?case
  proof (cases "prefix (LF # ''---'') (c # cs)")
    case True
    with Cons.prems have "t = []" by simp
    with True show ?thesis by (auto simp: prefix_def)
  next
    case False
    with Cons.prems obtain t' where t': "lazy_until_marker cs = Some t'" "t = c # t'"
      by auto
    from Cons.IH [OF t'(1)] t'(2) show ?thesis by auto
  qed
qed

lemma lazy_until_marker_found:
  "\<exists>t. lazy_until_marker (t' @ [LF] @ ''---'' @ rest) = Some t \<and> length t \<le> length t'"
proof (induction t')
  case Nil
  show ?case by simp
next
  case (Cons c cs)
  then show ?case by auto
qed

lemma match_frontmatter_None_iff:
  "(match_frontmatter content = None)
     = (\<not> (\<exists>t rest. content = ''---'' @ [LF] @ t @ [LF] @ ''---'' @ rest))"
proof
  assume n: "match_frontmatter content = None"
  show "\<not> (\<exists>t rest. content = ''---'' @ [LF] @ t @ [LF] @ ''---'' @ rest)"
  proof
    assume "\<exists>t rest. content = ''---'' @ [LF] @ t @ [LF] @ ''---'' @ rest"
    then obtain t rest where c: "content = ''---'' @ [LF] @ t @ [LF] @ ''---'' @ rest"
      by blast
    then have "match_frontmatter content = lazy_until_marker (t @ [LF] @ ''---'' @ rest)"
      by (simp add: match_frontmatter_def)
    with lazy_until_marker_found [of t rest] n show False
      by auto
  qed
next
  assume h: "\<not> (\<exists>t rest. content = ''---'' @ [LF] @ t @ [LF] @ ''---'' @ rest)"
  show "match_frontmatter content = None"
  proof (rule ccontr)
    assume "match_frontmatter content \<noteq> None"
    then obtain t where t: "match_frontmatter content = Some t" by auto
    then have p: "prefix (''---'' @ [LF]) content"
      and l: "lazy_until_marker (drop 4 content) = Some t"
      by (auto simp: match_frontmatter_def split: if_splits)
    from p have c: "content = (''---'' @ [LF]) @ drop 4 content"
      by (auto simp: prefix_def)
    from lazy_until_marker_decomp [OF l] obtain rest
      where "drop 4 content = t @ [LF] @ ''---'' @ rest" by blast
    with c have "content = ''---'' @ [LF] @ t @ [LF] @ ''---'' @ rest"
      by simp
    with h show False by blast
  qed
qed

lemma match_frontmatter_shortest:
  assumes "match_frontmatter content = Some t"
  shows "(\<exists>rest. content = ''---'' @ [LF] @ t @ [LF] @ ''---'' @ rest)
         \<and> (\<forall>t' rest'. content = ''---'' @ [LF] @ t' @ [LF] @ ''---'' @ rest'
               \<longrightarrow> length t \<le> length t')"
proof
  from assms have p: "prefix (''---'' @ [LF]) content"
    and l: "lazy_until_marker (drop 4 content) = Some t"
    by (auto simp: match_frontmatter_def split: if_splits)
  from p have c: "content = (''---'' @ [LF]) @ drop 4 content"
    by (auto simp: prefix_def)
  from lazy_until_marker_decomp [OF l] obtain rest
    where "drop 4 content = t @ [LF] @ ''---'' @ rest" by blast
  with c have "content = ''---'' @ [LF] @ t @ [LF] @ ''---'' @ rest"
    by simp
  then show "\<exists>rest. content = ''---'' @ [LF] @ t @ [LF] @ ''---'' @ rest" ..
  show "\<forall>t' rest'. content = ''---'' @ [LF] @ t' @ [LF] @ ''---'' @ rest'
          \<longrightarrow> length t \<le> length t'"
  proof (intro allI impI)
    fix t' rest' assume "content = ''---'' @ [LF] @ t' @ [LF] @ ''---'' @ rest'"
    then have "drop 4 content = t' @ [LF] @ ''---'' @ rest'" by simp
    with lazy_until_marker_found [of t' rest'] l show "length t \<le> length t'"
      by auto
  qed
qed

lemma name_checks_message:
  "name_checks dir_name name = Some msg \<Longrightarrow> hd msg = CHR ''N''"
  by (auto simp: name_checks_def split: if_splits)

lemma description_checks_message:
  "description_checks description = Some msg \<Longrightarrow> hd msg = CHR ''D''"
  by (auto simp: description_checks_def split: if_splits)

lemma invalid_format_iff:
  assumes "startswith content ''---''"
  shows "(validate_content dir_name content = (False, ''Invalid frontmatter format''))
         = (match_frontmatter content = None)"
proof (cases "match_frontmatter content")
  case None
  with assms show ?thesis by (simp add: validate_content_def)
next
  case (Some t)
  have "snd (validate_content dir_name content) \<noteq> ''Invalid frontmatter format''"
    using assms Some
    by (auto simp: validate_content_def Let_def
        dest: name_checks_message description_checks_message
        split: option.splits if_splits)
  with Some show ?thesis by auto
qed

text \<open>
  Claim C2, as it is written, at two documents. The first has its second line equal to the
  marker and yet fails extraction: the pattern wants a line feed before the header text and
  another after it, and here one line feed would have to be both. The second has no line
  equal to the marker after the first and yet its header is extracted: the pattern asks
  nothing of what follows the closing three hyphens.
\<close>

theorem second_marker_line_counterexample:
  "startswith ''---\<newline>---\<newline>'' ''---''
   \<and> second_marker_line ''---\<newline>---\<newline>''
   \<and> validate_content ''foo'' ''---\<newline>---\<newline>'' = (False, ''Invalid frontmatter format'')
   \<and> startswith ''---\<newline>name: foo\<newline>description: x\<newline>----'' ''---''
   \<and> \<not> second_marker_line ''---\<newline>name: foo\<newline>description: x\<newline>----''
   \<and> match_frontmatter ''---\<newline>name: foo\<newline>description: x\<newline>----''
       = Some ''name: foo\<newline>description: x''
   \<and> validate_content ''foo'' ''---\<newline>name: foo\<newline>description: x\<newline>----''
       = (True, ''Skill is valid!'')"
  by code_simp

text \<open>
  Claim C2, amended: for a document that starts with \<open>---\<close>, extraction fails (the validator
  answers \<open>Invalid frontmatter format\<close>) exactly when the document is not of the shape
  \<open>---\<close>, line feed, a text, line feed, \<open>---\<close>, anything; when it is, the header
  extracted is the shortest such text.
\<close>

theorem frontmatter_extraction:
  assumes "startswith content ''---''"
  shows "((validate_content dir_name content = (False, ''Invalid frontmatter format''))
            = (\<not> (\<exists>t rest. content = ''---'' @ [LF] @ t @ [LF] @ ''---'' @ rest)))
         \<and> (\<forall>t. match_frontmatter content = Some t \<longrightarrow>
               (\<exists>rest. content = ''---'' @ [LF] @ t @ [LF] @ ''---'' @ rest)
               \<and> (\<forall>t' rest'. content = ''---'' @ [LF] @ t' @ [LF] @ ''---'' @ rest'
                     \<longrightarrow> length t \<le> length t'))"
  using invalid_format_iff [OF assms] match_frontmatter_None_iff match_frontmatter_shortest
  by simp

theorem frontmatter_extraction_witness:
  "startswith ''---\<newline>---\<newline>'' ''---''
   \<and> \<not> (\<exists>t rest. ''---\<newline>---\<newline>'' = ''---'' @ [LF] @ t @ [LF] @ ''---'' @ rest)
   \<and> startswith ''---\<newline>name: foo\<newline>---\<newline>body\<newline>---\<newline>'' ''---''
   \<and> match_frontmatter ''---\<newline>name: foo\<newline>---\<newline>body\<newline>---\<newline>'' = Some ''name: foo''
   \<and> validate_content ''foo'' ''---\<newline>name: foo\<newline>---\<newline>body\<newline>---\<newline>''
       \<noteq> (False, ''Invalid frontmatter format'')"
proof -
  let ?a = "''---\<newline>---\<newline>''"
  let ?b = "''---\<newline>name: foo\<newline>---\<newline>body\<newline>---\<newline>''"
  have sa: "startswith ?a ''---''" and sb: "startswith ?b ''---''"
    by (simp_all add: startswith_def)
  have va: "validate_content ''foo'' ?a = (False, ''Invalid frontmatter format'')"
    by code_simp
  have mb: "match_frontmatter ?b = Some ''name: foo''"
    by code_simp
  have "\<not> (\<exists>t rest. ?a = ''---'' @ [LF] @ t @ [LF] @ ''---'' @ rest)"
    using frontmatter_extraction [OF sa, of "''foo''"] va by simp
  moreover have "validate_content ''foo'' ?b \<noteq> (False, ''Invalid frontmatter format'')"
  proof -
    have "\<exists>rest. ?b = ''---'' @ [LF] @ ''name: foo'' @ [LF] @ ''---'' @ rest"
      using frontmatter_extraction [OF sb, of "''foo''"] mb by blast
    then have "\<exists>t rest. ?b = ''---'' @ [LF] @ t @ [LF] @ ''---'' @ rest"
      by blast
    with frontmatter_extraction [OF sb, of "''foo''"] show ?thesis
      by blast
  qed
  ultimately show ?thesis
    using sa sb mb by blast
qed

subsection \<open>Initializing, then validating\<close>

lemma mkdir_no_parents_changes:
  assumes "mkdir fs p False exist_ok = Inr fs'"
  shows "\<forall>q. \<not> prefix p q \<longrightarrow> fs' q = fs q"
  using assms
  by (subst (asm) mkdir.simps)
    (auto simp: os_mkdir_def strict_prefix_def split: sum.splits option.splits if_splits)

lemma write_text_changes:
  assumes "write_text fs p s = Inr fs'"
  shows "parent_error fs p = None \<and> (\<exists>m. fs' = fs(p \<mapsto> File m s))"
  using assms
  by (auto simp: write_text_def split: option.splits if_splits node.splits)

lemma chmod_changes:
  assumes "chmod fs p bits = Inr fs'"
  shows "\<forall>q. q \<noteq> p \<longrightarrow> fs' q = fs q"
  using assms
  by (auto simp: chmod_def split: option.splits if_splits node.splits)

lemma write_text_frame:
  assumes "write_text fs p s = Inr fs'"
  shows "\<forall>q. q \<noteq> p \<longrightarrow> fs' q = fs q"
  using write_text_changes [OF assms] by auto

lemma resource_steps_changes:
  assumes "run_steps (resource_steps skill_name skill_title d) (fs, out) = Inr (fs', out')"
    and "\<not> prefix (d @ [''scripts'']) q" and "\<not> prefix (d @ [''references'']) q"
    and "\<not> prefix (d @ [''assets'']) q"
  shows "fs' q = fs q"
proof -
  from assms(1) obtain f1 f2 f3 f4 f5 f6
    where 1: "mkdir fs (d @ [''scripts'']) False True = Inr f1"
      and 2: "write_text f1 (d @ [''scripts'', ''example.py'']) (EXAMPLE_SCRIPT skill_name) = Inr f2"
      and 3: "chmod f2 (d @ [''scripts'', ''example.py'']) 493 = Inr f3"
      and 4: "mkdir f3 (d @ [''references'']) False True = Inr f4"
      and 5: "write_text f4 (d @ [''references'', ''REFERENCE.md'']) (EXAMPLE_REFERENCE skill_title) = Inr f5"
      and 6: "mkdir f5 (d @ [''assets'']) False True = Inr f6"
      and 7: "write_text f6 (d @ [''assets'', ''example_asset.txt'']) EXAMPLE_ASSET = Inr fs'"
    by (auto simp: resource_steps_def fs_step_def print_step_def split: sum.splits)
  have s: "q \<noteq> d @ [''scripts'', ''example.py'']"
    using assms(2) by (auto simp: prefix_def)
  have r: "q \<noteq> d @ [''references'', ''REFERENCE.md'']"
    using assms(3) by (auto simp: prefix_def)
  have a: "q \<noteq> d @ [''assets'', ''example_asset.txt'']"
    using assms(4) by (auto simp: prefix_def)
  have "f1 q = fs q" using mkdir_no_parents_changes [OF 1] assms(2) by simp
  moreover have "f2 q = f1 q" using write_text_frame [OF 2] s by simp
  moreover have "f3 q = f2 q" using chmod_changes [OF 3] s by simp
  moreover have "f4 q = f3 q" using mkdir_no_parents_changes [OF 4] assms(3) by simp
  moreover have "f5 q = f4 q" using write_text_frame [OF 5] r by simp
  moreover have "f6 q = f5 q" using mkdir_no_parents_changes [OF 6] assms(4) by simp
  moreover have "fs' q = f6 q" using write_text_frame [OF 7] a by simp
  ultimately show ?thesis by simp
qed

lemma lookup_dirs_agree:
  assumes "\<forall>q. length q \<le> length pre + length cs \<longrightarrow> fs' q = fs q"
  shows "lookup_dirs fs' pre cs = lookup_dirs fs pre cs"
  using assms
proof (induction cs arbitrary: pre)
  case Nil
  show ?case by simp
next
  case (Cons c cs)
  have here: "fs' (pre @ [c]) = fs (pre @ [c])"
    using Cons.prems by simp
  have "lookup_dirs fs' (pre @ [c]) cs = lookup_dirs fs (pre @ [c]) cs"
    using Cons.prems by (intro Cons.IH) simp
  with here show ?case
    by (simp split: option.splits node.splits)
qed

lemma init_skill_success:
  assumes "init_skill skill_name path fs = (Some d, fs', out)"
  shows "d = path_join path skill_name \<and> \<not> path_exists fs d
         \<and> validate_skill d fs' =
             Inr (validate_content (path_name d)
                    (universal_newlines
                       (SKILL_TEMPLATE skill_name (title_case_skill_name skill_name))))"
proof -
  let ?d = "path_join path skill_name"
  let ?content = "SKILL_TEMPLATE skill_name (title_case_skill_name skill_name)"
  let ?md = "?d @ [''SKILL.md'']"
  from assms have ne: "\<not> path_exists fs ?d"
    by (auto simp: init_skill_def Let_def split: if_splits)
  obtain fs1 where mk: "mkdir fs ?d True False = Inr fs1"
    using assms ne
    by (cases "mkdir fs ?d True False") (simp_all add: init_skill_def Let_def)
  obtain fs2 where w: "write_text fs1 ?md ?content = Inr fs2"
    using assms ne mk
    by (cases "write_text fs1 ?md ?content") (simp_all add: init_skill_def Let_def)
  define out2 where
    "out2 = [Line (''Created skill directory: '' @ str_path ?d)] @ [Line ''Created SKILL.md'']"
  have i: "init_skill skill_name path fs =
             (case run_steps (resource_steps skill_name (title_case_skill_name skill_name) ?d)
                     (fs2, out2) of
                Inl (e, fs3, out3) \<Rightarrow>
                  (None, fs3, out3 @ [ErrorLine ''Error creating resource directories: '' e])
              | Inr (fs3, out3) \<Rightarrow>
                  (Some ?d, fs3,
                   out3 @ [Line ([LF] @ ''Skill '' @ [SQ] @ skill_name @ [SQ]
                                 @ '' initialized at '' @ str_path ?d),
                           Line ([LF] @ ''Next steps:''),
                           Line ''1. Edit SKILL.md to complete the TODO items'',
                           Line ''2. Customize or delete example files in scripts/, references/, assets/'',
                           Line ''3. Run quick_validate.py to check the skill structure'']))"
    unfolding init_skill_def Let_def out2_def using ne mk w by simp
  obtain out3 where r: "run_steps (resource_steps skill_name (title_case_skill_name skill_name) ?d)
                (fs2, out2) = Inr (fs', out3)"
      and d: "d = ?d"
    using assms unfolding i
    by (cases "run_steps (resource_steps skill_name (title_case_skill_name skill_name) ?d)
                 (fs2, out2)")
      (auto split: prod.splits)
  from write_text_changes [OF w] obtain m
    where pe: "parent_error fs1 ?md = None" and fs2: "fs2 = fs1(?md \<mapsto> File m ?content)"
    by auto
  have keep: "fs' q = fs2 q" if "length q \<le> length ?d \<or> q = ?md" for q
    using that by (intro resource_steps_changes [OF r]) (auto simp: prefix_def)
  have "lookup_dirs fs' [] ?d = lookup_dirs fs2 [] ?d"
    by (rule lookup_dirs_agree) (simp add: keep)
  also have "\<dots> = lookup_dirs fs1 [] ?d"
    by (rule lookup_dirs_agree) (auto simp: fs2)
  finally have pe': "parent_error fs' ?md = None"
    using pe by (simp add: parent_error_def)
  have md_file: "fs' ?md = Some (File m ?content)"
    using keep [of ?md] by (simp add: fs2)
  have "validate_skill ?d fs' =
          Inr (validate_content (path_name ?d) (universal_newlines ?content))"
    by (simp add: validate_skill_def path_exists_def read_text_def pe' md_file)
  with d ne show ?thesis by simp
qed

lemma lookup_dirs_append:
  "lookup_dirs fs pre (xs @ ys) =
     (case lookup_dirs fs pre xs of Some e \<Rightarrow> Some e | None \<Rightarrow> lookup_dirs fs (pre @ xs) ys)"
  by (induction xs arbitrary: pre) (auto split: option.splits node.splits)

lemma lookup_dirs_snoc:
  "lookup_dirs fs [] (xs @ [x]) =
     (case lookup_dirs fs [] xs of
        Some e \<Rightarrow> Some e
      | None \<Rightarrow>
          (case fs (xs @ [x]) of
             None \<Rightarrow> Some FileNotFoundError
           | Some (File m s) \<Rightarrow> Some NotADirectoryError
           | Some (Dir m) \<Rightarrow> None))"
  by (simp add: lookup_dirs_append split: option.splits node.splits)

lemma os_mkdir_child:
  assumes "lookup_dirs fs [] d = None" and "fs (d @ [x]) = None"
  shows "\<exists>fs'. os_mkdir fs (d @ [x]) = Inr fs'
           \<and> lookup_dirs fs' [] (d @ [x]) = None
           \<and> (\<forall>q. strict_prefix (d @ [x]) q \<longrightarrow> fs' q = None)
           \<and> (\<forall>q. \<not> prefix (d @ [x]) q \<longrightarrow> fs' q = fs q)"
proof -
  let ?fs' = "\<lambda>q. if strict_prefix (d @ [x]) q then None else (fs(d @ [x] \<mapsto> Dir 493)) q"
  have m: "os_mkdir fs (d @ [x]) = Inr ?fs'"
    using assms by (simp add: os_mkdir_def parent_error_def)
  have "lookup_dirs ?fs' [] d = lookup_dirs fs [] d"
    by (rule lookup_dirs_agree) (auto simp: strict_prefix_def prefix_def)
  then have l: "lookup_dirs ?fs' [] (d @ [x]) = None"
    using assms(1) by (simp add: lookup_dirs_snoc)
  have f: "\<forall>q. \<not> prefix (d @ [x]) q \<longrightarrow> ?fs' q = fs q"
    by (auto simp: strict_prefix_def)
  show ?thesis
    using m l f by (intro exI [of _ ?fs']) simp
qed

lemma mkdir_parents_creates:
  assumes "lookup_dirs fs [] p = Some FileNotFoundError"
  shows "\<exists>fs'. mkdir fs p True exist_ok = Inr fs'
           \<and> lookup_dirs fs' [] p = None
           \<and> (\<forall>q. strict_prefix p q \<longrightarrow> fs' q = None)"
  using assms
proof (induction p arbitrary: exist_ok rule: rev_induct)
  case Nil
  then show ?case by simp
next
  case (snoc x xs)
  show ?case
  proof (cases "lookup_dirs fs [] xs")
    case None
    with snoc.prems have e: "fs (xs @ [x]) = None"
      by (auto simp: lookup_dirs_snoc split: option.splits node.splits)
    from os_mkdir_child [OF None e] obtain fs'
      where "os_mkdir fs (xs @ [x]) = Inr fs'" "lookup_dirs fs' [] (xs @ [x]) = None"
        "\<forall>q. strict_prefix (xs @ [x]) q \<longrightarrow> fs' q = None"
      by blast
    then show ?thesis
      by (subst mkdir.simps) simp
  next
    case (Some e)
    with snoc.prems have e: "e = FileNotFoundError"
      by (simp add: lookup_dirs_snoc)
    from snoc.IH [OF Some [unfolded e], of True] obtain fs1
      where 1: "mkdir fs xs True True = Inr fs1" and 2: "lookup_dirs fs1 [] xs = None"
        and 3: "\<forall>q. strict_prefix xs q \<longrightarrow> fs1 q = None"
      by blast
    have "strict_prefix xs (xs @ [x])"
      by (simp add: strict_prefix_def)
    with 3 have 4: "fs1 (xs @ [x]) = None"
      by blast
    from os_mkdir_child [OF 2 4] obtain fs2
      where 5: "os_mkdir fs1 (xs @ [x]) = Inr fs2" and 6: "lookup_dirs fs2 [] (xs @ [x]) = None"
        and 7: "\<forall>q. strict_prefix (xs @ [x]) q \<longrightarrow> fs2 q = None"
      by blast
    have 8: "mkdir fs1 (xs @ [x]) False exist_ok = Inr fs2"
      by (subst mkdir.simps) (simp add: 5)
    have 9: "os_mkdir fs (xs @ [x]) = Inl FileNotFoundError"
      using Some e by (simp add: os_mkdir_def parent_error_def)
    have "mkdir fs (xs @ [x]) True exist_ok = Inr fs2"
      by (subst mkdir.simps) (simp add: 9 1 8)
    with 6 7 show ?thesis by blast
  qed
qed

text \<open>
  \<open>mkdir\<close> returns no file system with an error, and needs none: an error of \<open>mkdir\<close> is
  that of its first call of \<open>os.mkdir\<close>, raised before anything is made.
\<close>

lemma mkdir_error_unchanged:
  assumes "mkdir fs p parents exist_ok = Inl e"
  shows "os_mkdir fs p = Inl e"
proof (cases "os_mkdir fs p")
  case (Inr fs')
  with assms show ?thesis by (subst (asm) mkdir.simps) simp
next
  case (Inl e')
  show ?thesis
  proof (cases "e' = FileNotFoundError \<and> parents \<and> p \<noteq> []")
    case False
    with assms Inl show ?thesis
      by (subst (asm) mkdir.simps) (auto split: if_splits)
  next
    case True
    with Inl have "lookup_dirs fs [] (butlast p) = Some FileNotFoundError"
      by (auto simp: os_mkdir_def parent_error_def split: option.splits if_splits)
    then have "lookup_dirs fs [] (butlast p @ [last p]) = Some FileNotFoundError"
      by (simp add: lookup_dirs_snoc)
    with True have "lookup_dirs fs [] p = Some FileNotFoundError"
      by simp
    from mkdir_parents_creates [OF this, of exist_ok] True assms show ?thesis
      by simp
  qed
qed

lemma lookup_dirs_error:
  "lookup_dirs fs pre cs = Some e \<Longrightarrow> e = FileNotFoundError \<or> e = NotADirectoryError"
  by (induction cs arbitrary: pre) (auto split: option.splits node.splits)

lemma lookup_dirs_update_longer:
  assumes "length d < length q"
  shows "lookup_dirs (fs(q \<mapsto> v)) [] d = lookup_dirs fs [] d"
  using assms by (intro lookup_dirs_agree) auto

lemma mkdir_child:
  assumes "lookup_dirs fs [] d = None" and "fs (d @ [x]) = None"
  shows "\<exists>fs'. mkdir fs (d @ [x]) False exist_ok = Inr fs'
           \<and> lookup_dirs fs' [] (d @ [x]) = None
           \<and> (\<forall>q. strict_prefix (d @ [x]) q \<longrightarrow> fs' q = None)
           \<and> (\<forall>q. \<not> prefix (d @ [x]) q \<longrightarrow> fs' q = fs q)"
proof -
  from os_mkdir_child [OF assms] obtain fs'
    where "os_mkdir fs (d @ [x]) = Inr fs'" "lookup_dirs fs' [] (d @ [x]) = None"
      "\<forall>q. strict_prefix (d @ [x]) q \<longrightarrow> fs' q = None"
      "\<forall>q. \<not> prefix (d @ [x]) q \<longrightarrow> fs' q = fs q"
    by blast
  then show ?thesis
    by (subst mkdir.simps) simp
qed

lemma write_text_child:
  assumes "lookup_dirs fs [] d = None" and "fs (d @ [x]) = None"
  shows "write_text fs (d @ [x]) s = Inr (fs(d @ [x] \<mapsto> File 420 s))"
  using assms by (simp add: write_text_def parent_error_def)

lemma chmod_child:
  assumes "lookup_dirs fs [] d = None" and "fs (d @ [x]) = Some (File m s)"
  shows "chmod fs (d @ [x]) bits = Inr (fs(d @ [x] \<mapsto> File bits s))"
  using assms by (simp add: chmod_def parent_error_def)

text \<open>A directory made in \<open>d\<close> and a file written into it leave the rest of \<open>d\<close> as it was.\<close>

lemma directory_with_file:
  assumes "lookup_dirs fs [] d = None" and "fs (d @ [x]) = None"
  shows "\<exists>fs1 fs2. mkdir fs (d @ [x]) False True = Inr fs1
           \<and> write_text fs1 (d @ [x, y]) s = Inr fs2
           \<and> lookup_dirs fs2 [] (d @ [x]) = None
           \<and> fs2 (d @ [x, y]) = Some (File 420 s)
           \<and> lookup_dirs fs2 [] d = None
           \<and> (\<forall>q. \<not> prefix (d @ [x]) q \<longrightarrow> fs2 q = fs q)"
proof -
  from mkdir_child [OF assms, of True] obtain fs1
    where 1: "mkdir fs (d @ [x]) False True = Inr fs1"
      and 2: "lookup_dirs fs1 [] (d @ [x]) = None"
      and 3: "\<forall>q. strict_prefix (d @ [x]) q \<longrightarrow> fs1 q = None"
      and 4: "\<forall>q. \<not> prefix (d @ [x]) q \<longrightarrow> fs1 q = fs q"
    by blast
  have "strict_prefix (d @ [x]) ((d @ [x]) @ [y])"
    by (simp add: strict_prefix_def)
  with 3 have 5: "fs1 ((d @ [x]) @ [y]) = None"
    by blast
  let ?fs2 = "fs1((d @ [x]) @ [y] \<mapsto> File 420 s)"
  have 6: "write_text fs1 ((d @ [x]) @ [y]) s = Inr ?fs2"
    by (rule write_text_child [OF 2 5])
  have 7: "lookup_dirs ?fs2 [] (d @ [x]) = None"
    using 2 by (simp add: lookup_dirs_update_longer)
  have 8: "lookup_dirs ?fs2 [] d = None"
    using 7 by (simp add: lookup_dirs_snoc split: option.splits)
  have 9: "\<forall>q. \<not> prefix (d @ [x]) q \<longrightarrow> ?fs2 q = fs q"
    using 4 by (auto simp: prefix_def)
  show ?thesis
    using 1 6 7 8 9 by (intro exI [of _ fs1] exI [of _ ?fs2]) simp
qed

lemma resource_steps_run:
  assumes "lookup_dirs fs [] d = None"
    and "fs (d @ [''scripts'']) = None" and "fs (d @ [''references'']) = None"
    and "fs (d @ [''assets'']) = None"
  shows "\<exists>fs' out'. run_steps (resource_steps skill_name skill_title d) (fs, out)
                        = Inr (fs', out')"
proof -
  from directory_with_file [OF assms(1,2), of "''example.py''" "EXAMPLE_SCRIPT skill_name"]
  obtain f1 f2
    where 1: "mkdir fs (d @ [''scripts'']) False True = Inr f1"
      and 2: "write_text f1 (d @ [''scripts'', ''example.py'']) (EXAMPLE_SCRIPT skill_name) = Inr f2"
      and 3: "lookup_dirs f2 [] (d @ [''scripts'']) = None"
      and 4: "f2 (d @ [''scripts'', ''example.py'']) = Some (File 420 (EXAMPLE_SCRIPT skill_name))"
      and 5: "lookup_dirs f2 [] d = None"
      and 6: "\<forall>q. \<not> prefix (d @ [''scripts'']) q \<longrightarrow> f2 q = fs q"
    by blast
  let ?f3 = "f2(d @ [''scripts'', ''example.py''] \<mapsto> File 493 (EXAMPLE_SCRIPT skill_name))"
  have 7: "chmod f2 (d @ [''scripts'', ''example.py'']) 493 = Inr ?f3"
    using chmod_child [OF 3, of "''example.py''"] 4 by simp
  have 8: "lookup_dirs ?f3 [] d = None"
    using 5 by (simp add: lookup_dirs_update_longer)
  have 9: "?f3 (d @ [''references'']) = None" "?f3 (d @ [''assets'']) = None"
    using 6 assms(3,4) by (auto simp: prefix_def)
  from directory_with_file [OF 8 9(1), of "''REFERENCE.md''" "EXAMPLE_REFERENCE skill_title"]
  obtain f4 f5
    where 10: "mkdir ?f3 (d @ [''references'']) False True = Inr f4"
      and 11: "write_text f4 (d @ [''references'', ''REFERENCE.md''])
                 (EXAMPLE_REFERENCE skill_title) = Inr f5"
      and 12: "lookup_dirs f5 [] d = None"
      and 13: "\<forall>q. \<not> prefix (d @ [''references'']) q \<longrightarrow> f5 q = ?f3 q"
    by blast
  have 14: "f5 (d @ [''assets'']) = None"
    using 13 9(2) by (auto simp: prefix_def)
  from directory_with_file [OF 12 14, of "''example_asset.txt''" EXAMPLE_ASSET]
  obtain f6 f7
    where 15: "mkdir f5 (d @ [''assets'']) False True = Inr f6"
      and 16: "write_text f6 (d @ [''assets'', ''example_asset.txt'']) EXAMPLE_ASSET = Inr f7"
    by blast
  show ?thesis
    by (simp add: resource_steps_def fs_step_def print_step_def 1 2 7 10 11 15 16)
qed

text \<open>
  In this file system the initializer fails only on a target that exists or has a file
  among its parents; otherwise it creates the directory and returns its path.
\<close>

lemma init_skill_creates:
  assumes "\<not> path_exists fs (path_join path skill_name)"
    and "parent_error fs (path_join path skill_name) \<noteq> Some NotADirectoryError"
  shows "\<exists>fs' out. init_skill skill_name path fs = (Some (path_join path skill_name), fs', out)"
proof -
  let ?d = "path_join path skill_name"
  from assms(1) have ne: "?d \<noteq> []"
    by (auto simp: path_exists_def)
  then have sn: "?d = butlast ?d @ [last ?d]"
    by simp
  have "\<exists>fs1. mkdir fs ?d True False = Inr fs1 \<and> lookup_dirs fs1 [] ?d = None
          \<and> (\<forall>q. strict_prefix ?d q \<longrightarrow> fs1 q = None)"
  proof (cases "parent_error fs ?d")
    case None
    with assms(1) ne have "fs ?d = None"
      by (simp add: path_exists_def)
    with None have "lookup_dirs fs [] (butlast ?d) = None" "fs (butlast ?d @ [last ?d]) = None"
      using ne by (simp_all add: parent_error_def)
    from mkdir_child [OF this, of False] obtain fs1
      where "mkdir fs (butlast ?d @ [last ?d]) True False = Inr fs1
             \<or> mkdir fs (butlast ?d @ [last ?d]) False False = Inr fs1"
        "lookup_dirs fs1 [] (butlast ?d @ [last ?d]) = None"
        "\<forall>q. strict_prefix (butlast ?d @ [last ?d]) q \<longrightarrow> fs1 q = None"
      by blast
    moreover have "mkdir fs ?d True False = mkdir fs ?d False False"
      using None \<open>fs ?d = None\<close> ne
      by (subst (1 2) mkdir.simps) (simp add: os_mkdir_def)
    ultimately show ?thesis
      using ne by auto
  next
    case (Some e)
    with assms(2) lookup_dirs_error [of fs "[]" "butlast ?d" e]
    have "lookup_dirs fs [] (butlast ?d) = Some FileNotFoundError"
      by (auto simp: parent_error_def)
    then have "lookup_dirs fs [] (butlast ?d @ [last ?d]) = Some FileNotFoundError"
      by (simp add: lookup_dirs_snoc)
    with ne have "lookup_dirs fs [] ?d = Some FileNotFoundError"
      by simp
    from mkdir_parents_creates [OF this, of False] show ?thesis .
  qed
  then obtain fs1 where mk: "mkdir fs ?d True False = Inr fs1"
    and l1: "lookup_dirs fs1 [] ?d = None"
    and b1: "\<forall>q. strict_prefix ?d q \<longrightarrow> fs1 q = None"
    by blast
  have below: "fs1 (?d @ [x]) = None" for x
    using b1 by (simp add: strict_prefix_def)
  let ?content = "SKILL_TEMPLATE skill_name (title_case_skill_name skill_name)"
  let ?fs2 = "fs1(?d @ [''SKILL.md''] \<mapsto> File 420 ?content)"
  have w: "write_text fs1 (?d @ [''SKILL.md'']) ?content = Inr ?fs2"
    by (rule write_text_child [OF l1 below])
  have l2: "lookup_dirs ?fs2 [] ?d = None"
    using l1 by (simp add: lookup_dirs_update_longer)
  have e2: "?fs2 (?d @ [''scripts'']) = None" "?fs2 (?d @ [''references'']) = None"
    "?fs2 (?d @ [''assets'']) = None"
    using below by simp_all
  define out2 where
    "out2 = [Line (''Created skill directory: '' @ str_path ?d)] @ [Line ''Created SKILL.md'']"
  from resource_steps_run [OF l2 e2, of skill_name "title_case_skill_name skill_name" out2]
  obtain fs' out' where r: "run_steps
      (resource_steps skill_name (title_case_skill_name skill_name) ?d) (?fs2, out2)
      = Inr (fs', out')"
    by blast
  show ?thesis
    unfolding init_skill_def Let_def using assms(1) mk w r [unfolded out2_def]
    by simp
qed

lemma template_my_new_skill:
  "validate_content ''my-new-skill''
     (universal_newlines
        (SKILL_TEMPLATE ''my-new-skill'' (title_case_skill_name ''my-new-skill'')))
   = (True, ''Skill is valid!'')"
  by code_simp

lemma join_my_new_skill: "path_join path ''my-new-skill'' = path @ [''my-new-skill'']"
  by (simp add: path_join_def startswith_def)

text \<open>
  Claim C1, as it is written, at a destination that is a regular file. The target below it
  does not exist, as the claim asks, but it cannot be made: \<open>mkdir\<close> raises
  \<open>NotADirectoryError\<close>, the initializer reports it and returns no path, the file system
  stays as it was, and the validator run on the target finds no SKILL.md.
\<close>

theorem init_below_file_counterexample:
  "\<not> path_exists (Map.empty([''blocker''] \<mapsto> File 420 ''x'')) ([''blocker''] @ [''my-new-skill''])
   \<and> init_skill ''my-new-skill'' [''blocker''] (Map.empty([''blocker''] \<mapsto> File 420 ''x''))
       = (None, Map.empty([''blocker''] \<mapsto> File 420 ''x''),
          [ErrorLine ''Error creating directory: '' NotADirectoryError])
   \<and> validate_skill ([''blocker''] @ [''my-new-skill'']) (Map.empty([''blocker''] \<mapsto> File 420 ''x''))
       = Inr (False, ''SKILL.md not found'')"
proof -
  let ?fs = "Map.empty([''blocker''] \<mapsto> File 420 ''x'')"
  have j: "path_join [''blocker''] ''my-new-skill'' = [''blocker'', ''my-new-skill'']"
    by (simp add: join_my_new_skill)
  have e: "\<not> path_exists ?fs [''blocker'', ''my-new-skill'']"
    by (simp add: path_exists_def)
  have o: "os_mkdir ?fs [''blocker'', ''my-new-skill''] = Inl NotADirectoryError"
    by (simp add: os_mkdir_def parent_error_def)
  have m: "mkdir ?fs [''blocker'', ''my-new-skill''] True False = Inl NotADirectoryError"
    by (subst mkdir.simps) (simp add: o)
  have i: "init_skill ''my-new-skill'' [''blocker''] ?fs
           = (None, ?fs, [ErrorLine ''Error creating directory: '' NotADirectoryError])"
    by (simp add: init_skill_def j e m)
  have v: "validate_skill [''blocker'', ''my-new-skill''] ?fs = Inr (False, ''SKILL.md not found'')"
    by (simp add: validate_skill_def path_exists_def parent_error_def)
  show ?thesis
    using e i v by simp
qed

text \<open>
  Claim C1, amended: for the identifier \<open>my-new-skill\<close> and any destination, when the
  initializer creates the directory and returns its path (which it does only where the
  target did not exist), the validator run on that directory in the file system the
  initializer left answers success: the \<open>name\<close> of the template is the name of the
  directory and its description passes the checks. By \<open>init_skill_creates\<close> the
  initializer does create the directory unless the target exists or a file stands among its
  parents.
\<close>

theorem init_then_validate_succeeds:
  assumes "init_skill ''my-new-skill'' path fs = (Some skill_dir, fs', out)"
  shows "skill_dir = path @ [''my-new-skill'']
         \<and> \<not> path_exists fs skill_dir
         \<and> validate_skill skill_dir fs' = Inr (True, ''Skill is valid!'')"
proof -
  from init_skill_success [OF assms]
  have j: "skill_dir = path_join path ''my-new-skill''"
    and ne: "\<not> path_exists fs skill_dir"
    and v: "validate_skill skill_dir fs' =
              Inr (validate_content (path_name skill_dir)
                     (universal_newlines
                        (SKILL_TEMPLATE ''my-new-skill''
                           (title_case_skill_name ''my-new-skill''))))"
    by blast+
  from j have d: "skill_dir = path @ [''my-new-skill'']"
    by (simp only: join_my_new_skill)
  have "path_name skill_dir = ''my-new-skill''"
    by (simp add: d path_name_def)
  with d ne v show ?thesis
    by (simp add: template_my_new_skill)
qed

lemma init_my_new_skill_empty:
  "fst (init_skill ''my-new-skill'' [''tmp''] Map.empty) = Some [''tmp'', ''my-new-skill'']"
  by code_simp

theorem init_then_validate_succeeds_witness:
  "fst (init_skill ''my-new-skill'' [''tmp''] Map.empty) = Some [''tmp'', ''my-new-skill'']
   \<and> validate_skill [''tmp'', ''my-new-skill'']
         (fst (snd (init_skill ''my-new-skill'' [''tmp''] Map.empty)))
       = Inr (True, ''Skill is valid!'')"
proof -
  obtain r fs' out where i: "init_skill ''my-new-skill'' [''tmp''] Map.empty = (r, fs', out)"
    by (cases "init_skill ''my-new-skill'' [''tmp''] Map.empty") auto
  with init_my_new_skill_empty have r: "r = Some [''tmp'', ''my-new-skill'']"
    by simp
  from init_then_validate_succeeds [OF i [unfolded r]] i r show ?thesis
    by simp
qed

end
